theory Spec2Isabelle
  imports Complex_Main "HOL-Library.Sublist"
begin

section \<open>Storyboard production: matcher, assembler and production job\<close>

text \<open>
  A shallow embedding of \<^verbatim>\<open>storyboard/src/services/matcher.ts\<close>,
  \<^verbatim>\<open>storyboard/src/services/assembler.ts\<close> and of the storyboard routes (the matching
  route, the manual override route and \<open>processProductionJob\<close>), whose text follows the
  type declarations in \<^verbatim>\<open>storyboard/src/types.ts\<close>.

  Conventions of the embedding:
  \<^item> a JavaScript \<^verbatim>\<open>number\<close> is a \<^typ>\<open>real\<close>; inside \<open>cosineSimilarity\<close> every
    operation rounds its result to double precision, elsewhere the arithmetic is exact;
    the infinities of IEEE doubles are outside the model, and so is NaN, except in the
    composite score of a match, which is a \<open>JsNumber\<close>;
  \<^item> a JavaScript string is a \<^typ>\<open>string\<close>; \<^verbatim>\<open>toLowerCase\<close> and the regular
    expression class \<^verbatim>\<open>\s\<close> are modelled on ASCII;
  \<^item> a value that may be \<^verbatim>\<open>null\<close> or \<^verbatim>\<open>undefined\<close> is an \<^typ>\<open>'a option\<close>;
  \<^item> the embedding, search and generation services are parameters of the functions
    that call them, and a rejected promise is the \<open>Inl\<close> of a sum;
  \<^item> record fields keep the source's names; where two records of the source share a
    field name, or a name is taken by a constant of the library, the field carries a
    prefix or a suffix, as said at the record.
\<close>

subsection \<open>Configuration (types.ts, CONFIG)\<close>

definition WEIGHTS_semanticSimilarity :: real where "WEIGHTS_semanticSimilarity = 0.50"
definition WEIGHTS_styleMatch :: real where "WEIGHTS_styleMatch = 0.20"
definition WEIGHTS_useCaseMatch :: real where "WEIGHTS_useCaseMatch = 0.15"
definition WEIGHTS_qualityScore :: real where "WEIGHTS_qualityScore = 0.10"
definition WEIGHTS_durationFit :: real where "WEIGHTS_durationFit = 0.05"

definition THRESHOLDS_semanticMinimum :: real where "THRESHOLDS_semanticMinimum = 0.72"
definition THRESHOLDS_compositeMinimum :: real where "THRESHOLDS_compositeMinimum = 0.78"
definition THRESHOLDS_excellentMatch :: real where "THRESHOLDS_excellentMatch = 0.90"

subsection \<open>Rounding to double precision\<close>

text \<open>
  The arithmetic of \<open>cosineSimilarity\<close> is IEEE double arithmetic: the result of every
  operation is the exact result rounded to the nearest number with a significand of 53
  bits, ties to the even significand. \<open>ulp x\<close> is the distance between neighbouring
  doubles in the binade of \<open>x\<close>, and \<open>fl x\<close> is \<open>x\<close> rounded. The exponent is not bounded
  here: overflow to infinity, the loss of precision of subnormal numbers, and NaN are not
  part of the model; it agrees with the doubles as long as no intermediate result leaves
  the range of normal doubles.
\<close>

definition roundToEven :: "real \<Rightarrow> int" where
  "roundToEven m =
     (let f = \<lfloor>m\<rfloor>; d = m - of_int f
      in if d < 1 / 2 then f else if 1 / 2 < d then f + 1 else if even f then f else f + 1)"

definition ulp :: "real \<Rightarrow> real" where
  "ulp x = 2 powr (of_int \<lfloor>log 2 \<bar>x\<bar>\<rfloor> - 52)"

definition fl :: "real \<Rightarrow> real" where
  "fl x = (if x = 0 then 0 else of_int (roundToEven (x / ulp x)) * ulp x)"

subsection \<open>Cosine similarity (matcher.ts, cosineSimilarity)\<close>

text \<open>
  The \<^verbatim>\<open>for\<close> loop over the indices of two arrays of equal length; the accumulator is
  \<open>(dotProduct, normA, normB)\<close>. Each product, each sum, each square root and the final
  quotient is rounded.
\<close>

fun cosineLoop :: "real list \<Rightarrow> real list \<Rightarrow> real \<times> real \<times> real \<Rightarrow> real \<times> real \<times> real" where
  "cosineLoop (x # xs) (y # ys) (dotProduct, normA, normB) =
     cosineLoop xs ys
       (fl (dotProduct + fl (x * y)), fl (normA + fl (x * x)), fl (normB + fl (y * y)))"
| "cosineLoop _ _ acc = acc"

definition cosineSimilarity :: "real list \<Rightarrow> real list \<Rightarrow> real" where
  "cosineSimilarity a b =
     (if length a \<noteq> length b then 0
      else case cosineLoop a b (0, 0, 0) of (dotProduct, normA, normB) \<Rightarrow>
        (let denominator = fl (fl (sqrt normA) * fl (sqrt normB))
         in if denominator = 0 then 0 else fl (dotProduct / denominator)))"

subsection \<open>Composite score (matcher.ts, calculateCompositeScore)\<close>

text \<open>The argument of \<open>calculateCompositeScore\<close>; its fields \<open>style\<close> and \<open>duration\<close>
  are \<open>style_s\<close> and \<open>duration_s\<close> here.\<close>

record Scores =
  semantic :: real
  style_s :: real
  useCase :: real
  quality :: real
  duration_s :: real

definition calculateCompositeScore :: "Scores \<Rightarrow> real" where
  "calculateCompositeScore scores =
     semantic scores * WEIGHTS_semanticSimilarity +
     style_s scores * WEIGHTS_styleMatch +
     useCase scores * WEIGHTS_useCaseMatch +
     quality scores * WEIGHTS_qualityScore +
     duration_s scores * WEIGHTS_durationFit"

subsection \<open>Strings of the scoring functions\<close>

text \<open>
  \<^verbatim>\<open>String.prototype.toLowerCase\<close> on ASCII letters, the whitespace class \<^verbatim>\<open>\s\<close> on
  ASCII (tab, line feed, vertical tab, form feed, carriage return, space), and
  \<^verbatim>\<open>split(/\s+/)\<close>: the pieces between maximal runs of whitespace, with an empty piece
  where the string starts or ends with whitespace, and \<^verbatim>\<open>[""]\<close> for the empty string.
\<close>

definition lowerChar :: "char \<Rightarrow> char" where
  "lowerChar c =
     (case map_of (zip ''ABCDEFGHIJKLMNOPQRSTUVWXYZ'' ''abcdefghijklmnopqrstuvwxyz'') c of
        Some l \<Rightarrow> l
      | None \<Rightarrow> c)"

definition toLowerCase :: "string \<Rightarrow> string" where
  "toLowerCase s = map lowerChar s"

definition isSpace :: "char \<Rightarrow> bool" where
  "isSpace c = (c \<in> set [CHR 0x09, CHR 0x0A, CHR 0x0B, CHR 0x0C, CHR 0x0D, CHR '' ''])"

fun splitLoop :: "string \<Rightarrow> string \<Rightarrow> bool \<Rightarrow> string list" where
  "splitLoop [] cur inRun = [rev cur]"
| "splitLoop (c # cs) cur inRun =
     (if isSpace c then (if inRun then splitLoop cs [] True else rev cur # splitLoop cs [] True)
      else splitLoop cs (c # cur) False)"

definition splitWhitespace :: "string \<Rightarrow> string list" where
  "splitWhitespace s = splitLoop s [] False"

text \<open>\<^verbatim>\<open>Array.prototype.join\<close> with a separator.\<close>

fun joinWith :: "string \<Rightarrow> string list \<Rightarrow> string" where
  "joinWith sep [] = []"
| "joinWith sep [x] = x"
| "joinWith sep (x # y # ys) = x @ sep @ joinWith sep (y # ys)"

text \<open>The JavaScript \<^verbatim>\<open>x || d\<close> on a nullable number: \<^verbatim>\<open>null\<close> and \<open>0\<close> give \<open>d\<close>.\<close>

definition orNum :: "real option \<Rightarrow> real \<Rightarrow> real" where
  "orNum x d = (case x of None \<Rightarrow> d | Some v \<Rightarrow> if v = 0 then d else v)"

subsection \<open>Data model (types.ts)\<close>

datatype TransitionType = cut | fade | dissolve | wipe

datatype AssetSource = existing | generated | manual

datatype JobStatus = pending | matching | generating | assembling | completed | failed

text \<open>
  The composite score of a match is the number that the exported functions
  \<open>shouldGenerate\<close> and \<open>getBestMatch\<close> compare with the composite threshold, on any list
  of matches they are given. Here NaN is kept as a value of its own, because the two
  comparisons differ on it: \<open>jsLess\<close> is \<^verbatim>\<open>x < t\<close> and \<open>jsGreaterEq\<close> is \<^verbatim>\<open>x >= t\<close>, and
  both are false when \<open>x\<close> is NaN. The scores computed by \<open>matchSceneToAssets\<close> are real
  numbers in this model, so the matches it returns never carry NaN.
\<close>

datatype JsNumber = Number real | NaN

definition jsLess :: "JsNumber \<Rightarrow> real \<Rightarrow> bool" where
  "jsLess x t = (case x of Number v \<Rightarrow> v < t | NaN \<Rightarrow> False)"

definition jsGreaterEq :: "JsNumber \<Rightarrow> real \<Rightarrow> bool" where
  "jsGreaterEq x t = (case x of Number v \<Rightarrow> t \<le> v | NaN \<Rightarrow> False)"

record Scene =
  sceneId :: string
  sequence :: nat
  duration :: real
  description :: string
  visualKeywords :: "string list"
  styleHints :: "string option"
  transitionIn :: TransitionType
  transitionOut :: TransitionType
  matchedAssetId :: "string option"
  matchScore :: "real option"
  assetSource :: "AssetSource option"
  needsReview :: bool

text \<open>LanceDBAsset; \<open>id\<close>, \<open>filename\<close>, \<open>filepath\<close>, \<open>source\<close>, \<open>description\<close> and
  \<open>duration\<close> of the source carry the prefix \<open>asset_\<close>.\<close>

record LanceDBAsset =
  asset_id :: string
  asset_filename :: string
  asset_filepath :: string
  asset_source :: string
  media_type :: string
  asset_description :: "string option"
  tags :: "string list option"
  style :: "string option"
  use_case :: "string option"
  width :: "real option"
  height :: "real option"
  asset_duration :: "real option"
  fps :: "real option"
  vector :: "real list option"

text \<open>AssetMatch; \<open>needsReview\<close> of the source is \<open>match_needsReview\<close>.\<close>

record AssetMatch =
  assetId :: string
  filepath :: string
  semanticScore :: real
  styleScore :: real
  useCaseScore :: real
  qualityScore :: real
  durationScore :: real
  compositeScore :: JsNumber
  match_needsReview :: bool

subsection \<open>Sub-scores (matcher.ts)\<close>

text \<open>A JavaScript \<^verbatim>\<open>Set\<close> built from an array: its elements without repetition; \<open>size\<close> is
  the length of that list and \<open>has\<close> is membership.\<close>

definition calculateStyleScore :: "Scene \<Rightarrow> LanceDBAsset \<Rightarrow> real" where
  "calculateStyleScore scene asset =
     (let sceneTags = remdups (map toLowerCase (visualKeywords scene) @
            (case styleHints scene of None \<Rightarrow> [] | Some h \<Rightarrow> splitWhitespace (toLowerCase h)));
          assetTags = remdups ((case tags asset of None \<Rightarrow> [] | Some ts \<Rightarrow> map toLowerCase ts) @
            (case style asset of None \<Rightarrow> [] | Some st \<Rightarrow> splitWhitespace (toLowerCase st)))
      in if length sceneTags = 0 \<or> length assetTags = 0 then 0.5
         else real (length (filter (\<lambda>tag. tag \<in> set assetTags) sceneTags)) /
              real (max (length sceneTags) 1))"

definition calculateUseCaseScore :: "Scene \<Rightarrow> LanceDBAsset \<Rightarrow> real" where
  "calculateUseCaseScore scene asset =
     (case use_case asset of
        None \<Rightarrow> 0.5
      | Some uc \<Rightarrow>
          if uc = [] then 0.5
          else
            (let sceneText = toLowerCase (description scene @ '' '' @ joinWith '' '' (visualKeywords scene));
                 useCaseWords = splitWhitespace (toLowerCase uc);
                 matches = length (filter (\<lambda>word. length word > 3 \<and> sublist word sceneText) useCaseWords)
             in min (real matches / real (max (length useCaseWords) 1)) 1))"

definition calculateQualityScore :: "LanceDBAsset \<Rightarrow> real" where
  "calculateQualityScore asset =
     (let w = orNum (width asset) 0;
          h = orNum (height asset) 0;
          targetPixels = 1920 * 1080;
          assetPixels = w * h
      in if assetPixels \<ge> targetPixels then 1.0
         else if assetPixels = 0 then 0.3
         else assetPixels / targetPixels)"

definition calculateDurationScore :: "Scene \<Rightarrow> LanceDBAsset \<Rightarrow> real" where
  "calculateDurationScore scene asset =
     (if orNum (asset_duration asset) 0 = 0 \<or> media_type asset \<noteq> ''video'' then 0.5
      else
        (let targetDuration = duration scene;
             assetDuration = orNum (asset_duration asset) 0
         in if assetDuration \<ge> targetDuration then 1.0
            else max (assetDuration / targetDuration) 0.3))"

subsection \<open>Matching (matcher.ts, matchSceneToAssets)\<close>

text \<open>The body of the loop over the candidates: \<open>None\<close> is the \<^verbatim>\<open>continue\<close>, \<open>Some\<close> the
  record pushed to \<open>matches\<close>.\<close>

definition semanticOf :: "real list \<Rightarrow> LanceDBAsset \<Rightarrow> real" where
  "semanticOf embedding asset =
     (case vector asset of Some v \<Rightarrow> cosineSimilarity embedding v | None \<Rightarrow> 0.7)"

definition scoreCandidate :: "Scene \<Rightarrow> real list \<Rightarrow> LanceDBAsset \<Rightarrow> AssetMatch option" where
  "scoreCandidate scene embedding asset =
     (let semScore = semanticOf embedding asset
      in if semScore < THRESHOLDS_semanticMinimum then None
         else
           (let stScore = calculateStyleScore scene asset;
                ucScore = calculateUseCaseScore scene asset;
                qScore = calculateQualityScore asset;
                dScore = calculateDurationScore scene asset;
                cScore = calculateCompositeScore
                  \<lparr>semantic = semScore, style_s = stScore, useCase = ucScore,
                   quality = qScore, duration_s = dScore\<rparr>;
                review = (cScore \<ge> THRESHOLDS_compositeMinimum \<and> cScore < THRESHOLDS_excellentMatch)
            in Some \<lparr>assetId = asset_id asset, filepath = asset_filepath asset,
                     semanticScore = semScore, styleScore = stScore, useCaseScore = ucScore,
                     qualityScore = qScore, durationScore = dScore,
                     compositeScore = Number cScore,
                     match_needsReview = review\<rparr>))"

fun scoreLoop :: "Scene \<Rightarrow> real list \<Rightarrow> LanceDBAsset list \<Rightarrow> AssetMatch list \<Rightarrow> AssetMatch list" where
  "scoreLoop scene embedding [] matches = matches"
| "scoreLoop scene embedding (asset # candidates) matches =
     (case scoreCandidate scene embedding asset of
        None \<Rightarrow> scoreLoop scene embedding candidates matches
      | Some m \<Rightarrow> scoreLoop scene embedding candidates (matches @ [m]))"

text \<open>\<^verbatim>\<open>matches.sort((a, b) => b.compositeScore - a.compositeScore)\<close>: a stable sort,
  descending in the composite score. With a NaN composite in the list the comparator is
  not consistent and the order the engine produces is implementation-defined; the order
  of the model on such a list (NaN sorted as 0) is a placeholder, and no property below
  relies on it.\<close>

definition sortKey :: "AssetMatch \<Rightarrow> real" where
  "sortKey m = (case compositeScore m of Number c \<Rightarrow> - c | NaN \<Rightarrow> 0)"

definition sortByComposite :: "AssetMatch list \<Rightarrow> AssetMatch list" where
  "sortByComposite matches = sort_key sortKey matches"

definition searchText :: "Scene \<Rightarrow> string" where
  "searchText scene =
     joinWith '' '' (filter (\<lambda>s. s \<noteq> [])
       ([description scene] @ visualKeywords scene @
        (case styleHints scene of None \<Rightarrow> [] | Some h \<Rightarrow> [h])))"

text \<open>The two services are parameters: \<open>generateEmbedding\<close> maps the search text to a vector,
  \<open>searchLanceDB\<close> maps a vector, a limit and a media type to the candidates; each may
  fail, and the failure leaves \<open>matchSceneToAssets\<close> as the rejected promise does.\<close>

type_synonym 'e EmbeddingService = "string \<Rightarrow> 'e + real list"
type_synonym 'e SearchService = "real list \<Rightarrow> nat \<Rightarrow> string option \<Rightarrow> 'e + LanceDBAsset list"

definition matchSceneToAssets ::
  "'e EmbeddingService \<Rightarrow> 'e SearchService \<Rightarrow> Scene \<Rightarrow> 'e + AssetMatch list" where
  "matchSceneToAssets generateEmbedding searchLanceDB scene =
     (case generateEmbedding (searchText scene) of
        Inl e \<Rightarrow> Inl e
      | Inr embedding \<Rightarrow>
          (let mediaType = (if duration scene > 0 then Some ''video'' else None)
           in case searchLanceDB embedding 20 mediaType of
                Inl e \<Rightarrow> Inl e
              | Inr candidates \<Rightarrow> Inr (sortByComposite (scoreLoop scene embedding candidates []))))"


definition getBestMatch :: "AssetMatch list \<Rightarrow> AssetMatch option" where
  "getBestMatch matches =
     (case matches of [] \<Rightarrow> None
      | topMatch # _ \<Rightarrow>
          if jsGreaterEq (compositeScore topMatch) THRESHOLDS_compositeMinimum
          then Some topMatch else None)"

subsection \<open>Assembly (assembler.ts)\<close>

text \<open>ResolvedAsset (types.ts); \<open>sceneId\<close>, \<open>assetId\<close>, \<open>source\<close> and \<open>needsReview\<close> of the
  source carry the prefix \<open>res_\<close>.\<close>

record ResolvedAsset =
  res_sceneId :: string
  res_assetId :: string
  localPath :: string
  res_source :: AssetSource
  confidence :: real
  res_needsReview :: bool

record Storyboard =
  storyboardId :: string
  title :: string
  scenes :: "Scene list"
  outputResolution :: "real \<times> real"
  outputFps :: real

text \<open>AssemblyOptions; the optional \<open>width\<close>, \<open>height\<close> and \<open>fps\<close> carry the prefix
  \<open>opt_\<close>.\<close>

record AssemblyOptions =
  outputPath :: string
  opt_width :: "real option"
  opt_height :: "real option"
  opt_fps :: "real option"

text \<open>
  The command handed to ffmpeg is kept structured instead of as text.
  \<^item> \<open>ScalePadFps w h f\<close> is the filter text
    \<^verbatim>\<open>scale=w:h:force_original_aspect_ratio=decrease,pad=w:h:(ow-iw)/2:(oh-ih)/2,setsar=1,fps=f\<close>.
  \<^item> A label is one of \<^verbatim>\<open>[v<i>]\<close>, \<^verbatim>\<open>[xfade<i>]\<close>, \<^verbatim>\<open>[concat<i>]\<close>, \<^verbatim>\<open>[outv]\<close> or the
    empty string.
  \<^item> \<open>Scale i nf\<close> is \<^verbatim>\<open>[<i>:v]<nf>[v<i>]\<close>;
    \<open>Xfade cur i t d off out\<close> is
    \<^verbatim>\<open><cur>[v<i>]xfade=transition=<t>:duration=<d>:offset=<off><out>\<close>;
    \<open>Concat2 cur i out\<close> is \<^verbatim>\<open><cur>[v<i>]concat=n=2:v=1:a=0<out>\<close>;
    \<open>ConcatAll ins n\<close> is \<^verbatim>\<open><ins>concat=n=<n>:v=1:a=0[outv]\<close>.
\<close>

datatype Normalize = ScalePadFps real real real

datatype Label = V nat | XfadeLabel nat | ConcatLabel nat | Outv | NoLabel

datatype FilterPart =
    Scale nat Normalize
  | Xfade Label nat string real real Label
  | Concat2 Label nat Label
  | ConcatAll "Label list" nat

text \<open>
  The three commands the assembler runs: the concat demuxer over a list file with one
  \<^verbatim>\<open>-vf\<close> filter (\<open>assembleSimple\<close>), a single input with one \<^verbatim>\<open>-vf\<close> filter, and a
  \<^verbatim>\<open>filter_complex\<close> over all inputs whose output \<^verbatim>\<open>[outv]\<close> is mapped. The last
  argument is the output path.
\<close>

datatype FfmpegCommand =
    ConcatDemuxer string Normalize string
  | SingleInput string Normalize string
  | FilterComplex "string list" "FilterPart list" string

datatype AssembleError = TypeError

text \<open>\<^verbatim>\<open>part.includes('[outv]')\<close> on the text of a filter part.\<close>

fun includesOutv :: "FilterPart \<Rightarrow> bool" where
  "includesOutv (Scale i nf) = False"
| "includesOutv (Xfade cur i t d off out) = (cur = Outv \<or> out = Outv)"
| "includesOutv (Concat2 cur i out) = (cur = Outv \<or> out = Outv)"
| "includesOutv (ConcatAll ins n) = True"

definition normalizeOf :: "AssemblyOptions \<Rightarrow> Normalize" where
  "normalizeOf options =
     ScalePadFps (orNum (opt_width options) 1920) (orNum (opt_height options) 1080)
       (orNum (opt_fps options) 30)"

definition assembleSimple :: "ResolvedAsset list \<Rightarrow> AssemblyOptions \<Rightarrow> FfmpegCommand" where
  "assembleSimple assets options =
     (let concatContent =
            joinWith [CHR 0x0A] (map (\<lambda>asset. ''file '' @ [CHR 0x27] @ localPath asset @ [CHR 0x27]) assets)
      in ConcatDemuxer concatContent (normalizeOf options) (outputPath options))"

text \<open>\<^verbatim>\<open>xs[i]\<close> on an array: \<^verbatim>\<open>undefined\<close> out of range.\<close>

definition elemAt :: "'a list \<Rightarrow> nat \<Rightarrow> 'a option" where
  "elemAt xs i = (if i < length xs then Some (xs ! i) else None)"

definition transitionDuration :: real where
  "transitionDuration = 0.5"

text \<open>\<^verbatim>\<open>scenes[k]?.duration || 5\<close>.\<close>

definition durationOr5 :: "Scene list \<Rightarrow> nat \<Rightarrow> real" where
  "durationOr5 scs k =
     (case elemAt scs k of None \<Rightarrow> 5 | Some sc \<Rightarrow> if duration sc = 0 then 5 else duration sc)"

definition transitionName :: "TransitionType \<Rightarrow> string" where
  "transitionName t =
     (case t of cut \<Rightarrow> ''cut'' | fade \<Rightarrow> ''fade'' | dissolve \<Rightarrow> ''dissolve'' | wipe \<Rightarrow> ''wipe'')"

record LoopState =
  filterParts :: "FilterPart list"
  currentInput :: Label
  offset :: real

text \<open>One iteration \<open>i\<close> of the transition loop over \<open>n\<close> assets.\<close>

definition transitionStep :: "nat \<Rightarrow> Scene list \<Rightarrow> LoopState \<Rightarrow> nat \<Rightarrow> LoopState" where
  "transitionStep n scs st i =
     (let transitionType = (case elemAt scs (i - 1) of None \<Rightarrow> cut | Some sc \<Rightarrow> transitionOut sc);
          offset' = (if i = 1 then durationOr5 scs 0
                     else offset st + durationOr5 scs (i - 1) - transitionDuration)
      in if transitionType \<noteq> cut then
           (let outLabel = (if i = n - 1 then Outv else XfadeLabel i)
            in \<lparr>filterParts = filterParts st @
                   [Xfade (currentInput st) i
                      (if transitionType = wipe then ''wipeleft'' else transitionName transitionType)
                      transitionDuration (offset' - transitionDuration) outLabel],
                 currentInput = (if outLabel = Outv then NoLabel else outLabel),
                 offset = offset'\<rparr>)
         else if i = n - 1 then
           \<lparr>filterParts = filterParts st @ [Concat2 (currentInput st) i Outv],
            currentInput = currentInput st, offset = offset'\<rparr>
         else
           \<lparr>filterParts = filterParts st @ [Concat2 (currentInput st) i (ConcatLabel i)],
            currentInput = ConcatLabel i, offset = offset'\<rparr>)"

text \<open>The scale filters of all inputs followed by the loop \<^verbatim>\<open>for (i = 1; i < n; i++)\<close>.\<close>

definition transitionLoop :: "nat \<Rightarrow> Scene list \<Rightarrow> Normalize \<Rightarrow> LoopState" where
  "transitionLoop n scs nf =
     foldl (transitionStep n scs)
       \<lparr>filterParts = map (\<lambda>i. Scale i nf) [0..<n], currentInput = V 0, offset = 0\<rparr>
       [1..<n]"

text \<open>
  The step after the loop, on a non-empty list of parts: when the text of the last part
  does not contain \<^verbatim>\<open>[outv]\<close>, the list is cut to its first \<open>n\<close> parts (the scale
  filters) and one concatenation of all \<open>n\<close> inputs is appended.
\<close>

definition concatFallback :: "nat \<Rightarrow> FilterPart list \<Rightarrow> FilterPart list" where
  "concatFallback n parts =
     (if \<not> includesOutv (last parts)
      then take n parts @ [ConcatAll (map V [0..<n]) n]
      else parts)"

text \<open>With no asset the list of parts is empty and reading its last element's
  \<^verbatim>\<open>includes\<close> throws.\<close>

definition assembleWithTransitions ::
  "ResolvedAsset list \<Rightarrow> Scene list \<Rightarrow> AssemblyOptions \<Rightarrow> AssembleError + FfmpegCommand" where
  "assembleWithTransitions assets scs options =
     (if length assets = 1 then
        Inr (SingleInput (localPath (hd assets)) (normalizeOf options) (outputPath options))
      else
        (let parts = filterParts (transitionLoop (length assets) scs (normalizeOf options))
         in if parts = [] then Inl TypeError
            else Inr (FilterComplex (map localPath assets)
                        (concatFallback (length assets) parts) (outputPath options))))"

definition assembleStoryboard ::
  "Storyboard \<Rightarrow> ResolvedAsset list \<Rightarrow> string \<Rightarrow> AssembleError + FfmpegCommand" where
  "assembleStoryboard storyboard assets outPath =
     (let hasTransitions =
            list_ex (\<lambda>s. transitionIn s \<noteq> cut \<or> transitionOut s \<noteq> cut) (scenes storyboard);
          options = \<lparr>outputPath = outPath,
                     opt_width = Some (fst (outputResolution storyboard)),
                     opt_height = Some (snd (outputResolution storyboard)),
                     opt_fps = Some (outputFps storyboard)\<rparr>
      in if hasTransitions then assembleWithTransitions assets (scenes storyboard) options
         else Inr (assembleSimple assets options))"

text \<open>
  Two readings of a command. \<open>normalizeSteps\<close> counts its scale/pad/fps filters: the one
  \<^verbatim>\<open>-vf\<close> filter of a command with a single input stream, the \<open>Scale\<close> parts of a
  \<^verbatim>\<open>filter_complex\<close>. \<open>junctions\<close> are the parts of a \<^verbatim>\<open>filter_complex\<close> that join
  streams, and \<open>outLabel\<close> is the label a part writes.
\<close>

fun isScale :: "FilterPart \<Rightarrow> bool" where
  "isScale (Scale i nf) = True"
| "isScale _ = False"

fun normalizeSteps :: "FfmpegCommand \<Rightarrow> nat" where
  "normalizeSteps (ConcatDemuxer content nf out) = 1"
| "normalizeSteps (SingleInput input nf out) = 1"
| "normalizeSteps (FilterComplex inputs parts out) = length (filter isScale parts)"

fun outLabel :: "FilterPart \<Rightarrow> Label" where
  "outLabel (Scale i nf) = V i"
| "outLabel (Xfade cur i t d off out) = out"
| "outLabel (Concat2 cur i out) = out"
| "outLabel (ConcatAll ins n) = Outv"

fun junctions :: "FilterPart list \<Rightarrow> FilterPart list" where
  "junctions parts = filter (\<lambda>p. \<not> isScale p) parts"

text \<open>The number of streams a command encodes into its output file: the single stream of
  a command with one \<^verbatim>\<open>-vf\<close> filter, the parts labelled \<^verbatim>\<open>[outv]\<close> of a
  \<^verbatim>\<open>filter_complex\<close>.\<close>

fun finalOutputs :: "FfmpegCommand \<Rightarrow> nat" where
  "finalOutputs (ConcatDemuxer content nf out) = 1"
| "finalOutputs (SingleInput input nf out) = 1"
| "finalOutputs (FilterComplex inputs parts out) = length (filter (\<lambda>p. outLabel p = Outv) parts)"

subsection \<open>Persistence and services (database schema, storyboard routes)\<close>

text \<open>
  The rows of the tables \<open>scene_matches\<close>, \<open>generated_assets\<close> and \<open>production_jobs\<close>
  (identifiers and timestamps generated by the database are left out); a row of
  \<open>storyboards\<close> is a \<open>Storyboard\<close> with its scenes parsed. Columns whose name is taken
  by a field of an earlier record carry the prefix \<open>row_\<close>, \<open>gen_\<close> or \<open>job_\<close>.
\<close>

record SceneMatchRow =
  row_storyboardId :: string
  row_sceneId :: string
  row_assetId :: string
  assetPath :: string
  row_source :: AssetSource
  row_compositeScore :: JsNumber
  row_needsReview :: bool

record GeneratedAssetRow =
  gen_assetId :: string
  gen_jobId :: string
  gen_sceneId :: string
  gen_storyboardId :: string
  gen_prompt :: string
  ltx2JobId :: string
  gen_filepath :: string
  catalogued :: bool

record JobRow =
  jobId :: string
  job_storyboardId :: string
  status :: JobStatus
  progress :: real
  job_outputPath :: "string option"
  job_error :: "string option"

text \<open>The calls made to the services outside the process, in the order they are made:
  \<open>MatchQuery sid\<close> is a call of \<open>matchSceneToAssets\<close> (one embedding request and one
  search) for the scene \<open>sid\<close>, \<open>Generate sid\<close> a call of \<open>generateVideoForScene\<close>,
  \<open>Catalog aid\<close> a call of \<open>catalogGeneratedAsset\<close>, \<open>Render cmd\<close> a run of ffmpeg.\<close>

datatype ServiceCall = MatchQuery string | Generate string | Catalog string | Render FfmpegCommand

record World =
  storyboards :: "Storyboard list"
  sceneMatches :: "SceneMatchRow list"
  productionJobs :: "JobRow list"
  generatedAssets :: "GeneratedAssetRow list"
  calls :: "ServiceCall list"

text \<open>The result of \<open>generateVideoForScene\<close> (\<open>jobId\<close>, \<open>filepath\<close>, \<open>prompt\<close>).\<close>

record Generation =
  g_jobId :: string
  g_filepath :: string
  g_prompt :: string

text \<open>
  The services of the production job: video generation (an error message when the
  promise is rejected), the identifier generator \<open>nanoid\<close> (indexed by the position of
  the scene), cataloguing (\<open>False\<close> when it throws) and the run of ffmpeg (\<open>Some\<close> error
  message when it fails).
\<close>

record Services =
  generateVideoForScene :: "Scene \<Rightarrow> string + Generation"
  nanoid :: "nat \<Rightarrow> string"
  catalogGeneratedAsset :: "Scene \<Rightarrow> string \<Rightarrow> string \<Rightarrow> string \<Rightarrow> bool"
  runFfmpeg :: "FfmpegCommand \<Rightarrow> string option"

definition OUTPUT_DIR :: string where
  "OUTPUT_DIR = ''/Volumes/STUDIO/VIDEO''"

definition updateJobStatus :: "string \<Rightarrow> JobStatus \<Rightarrow> real \<Rightarrow> string option \<Rightarrow> World \<Rightarrow> World" where
  "updateJobStatus jid st p out w =
     w\<lparr>productionJobs :=
         map (\<lambda>j. if jobId j = jid
                   then j\<lparr>status := st, progress := p,
                          job_outputPath := (case out of None \<Rightarrow> job_outputPath j | Some path \<Rightarrow> Some path)\<rparr>
                   else j)
             (productionJobs w)\<rparr>"

text \<open>The \<^verbatim>\<open>catch\<close> of \<open>processProductionJob\<close>.\<close>

definition failJob :: "string \<Rightarrow> string \<Rightarrow> World \<Rightarrow> World" where
  "failJob jid message w =
     w\<lparr>productionJobs :=
         map (\<lambda>j. if jobId j = jid then j\<lparr>status := failed, job_error := Some message\<rparr> else j)
             (productionJobs w)\<rparr>"

definition updateStoryboardScenes :: "string \<Rightarrow> Scene list \<Rightarrow> World \<Rightarrow> World" where
  "updateStoryboardScenes sbId scs w =
     w\<lparr>storyboards :=
         map (\<lambda>sb. if storyboardId sb = sbId then sb\<lparr>scenes := scs\<rparr> else sb) (storyboards w)\<rparr>"

subsection \<open>Matching route (storyboard routes, POST /:id/match)\<close>




subsection \<open>Manual override route (POST /:storyboardId/scenes/:sceneId/override)\<close>

definition overrideRoute :: "string \<Rightarrow> string \<Rightarrow> string \<Rightarrow> string \<Rightarrow> World \<Rightarrow> string + World" where
  "overrideRoute sbId sid bodyAssetId bodyAssetPath w =
     (if bodyAssetId = [] \<or> bodyAssetPath = [] then Inl ''assetId and assetPath required''
      else case find (\<lambda>sb. storyboardId sb = sbId) (storyboards w) of
        None \<Rightarrow> Inl ''Storyboard not found''
      | Some row \<Rightarrow>
          if \<not> list_ex (\<lambda>s. sceneId s = sid) (scenes row) then Inl ''Scene not found''
          else
            (let sceneIndex = length (takeWhile (\<lambda>s. sceneId s \<noteq> sid) (scenes row));
                 scs = (scenes row)[sceneIndex :=
                         (scenes row ! sceneIndex)\<lparr>matchedAssetId := Some bodyAssetId,
                            matchScore := Some 1.0, assetSource := Some manual,
                            needsReview := False\<rparr>];
                 w1 = w\<lparr>sceneMatches := sceneMatches w @
                        [\<lparr>row_storyboardId = sbId, row_sceneId = sid,
                          row_assetId = bodyAssetId, assetPath = bodyAssetPath,
                          row_source = manual, row_compositeScore = Number 1.0,
                          row_needsReview = False\<rparr>]\<rparr>
             in Inr (updateStoryboardScenes sbId scs w1)))"

subsection \<open>Production job (storyboard routes, processProductionJob)\<close>

record ProdState =
  world :: World
  resolvedAssets :: "ResolvedAsset list"
  scenesOut :: "Scene list"

text \<open>
  The test \<^verbatim>\<open>scene.matchedAssetId && scene.assetSource === 'existing'\<close> followed by the
  lookup of the first row of \<open>scene_matches\<close> for the scene: the asset identifier and the
  row when both succeed.
\<close>

definition alreadyMatched :: "Scene \<Rightarrow> World \<Rightarrow> (string \<times> SceneMatchRow) option" where
  "alreadyMatched scene w =
     (case matchedAssetId scene of
        None \<Rightarrow> None
      | Some aid \<Rightarrow>
          if aid \<noteq> [] \<and> assetSource scene = Some existing
          then (case find (\<lambda>r. row_sceneId r = sceneId scene) (sceneMatches w) of
                  None \<Rightarrow> None
                | Some row \<Rightarrow> Some (aid, row))
          else None)"

text \<open>One iteration of the loop over the scenes; the second component is the message of
  the error thrown, if any.\<close>

definition resolveScene ::
  "Services \<Rightarrow> string \<Rightarrow> string \<Rightarrow> nat \<Rightarrow> nat \<Rightarrow> Scene \<Rightarrow> ProdState \<Rightarrow> ProdState \<times> string option" where
  "resolveScene sv jid sbId totalScenes i scene st =
     (let p = 0.1 + 0.7 * (real i / real totalScenes)
      in case alreadyMatched scene (world st) of
           Some (aid, row) \<Rightarrow>
             (st\<lparr>world := updateJobStatus jid matching p None (world st),
                 resolvedAssets := resolvedAssets st @
                   [\<lparr>res_sceneId = sceneId scene, res_assetId = aid, localPath = assetPath row,
                     res_source = existing, confidence = orNum (matchScore scene) 1.0,
                     res_needsReview = needsReview scene\<rparr>],
                 scenesOut := scenesOut st @ [scene]\<rparr>, None)
         | None \<Rightarrow>
             (let w1 = updateJobStatus jid generating p None (world st);
                  w2 = w1\<lparr>calls := calls w1 @ [Generate (sceneId scene)]\<rparr>
              in case generateVideoForScene sv scene of
                   Inl message \<Rightarrow> (st\<lparr>world := w2\<rparr>, Some message)
                 | Inr g \<Rightarrow>
                     (let aid = ''gen_'' @ nanoid sv i;
                          w3 = w2\<lparr>generatedAssets := generatedAssets w2 @
                                 [\<lparr>gen_assetId = aid, gen_jobId = jid, gen_sceneId = sceneId scene,
                                   gen_storyboardId = sbId, gen_prompt = g_prompt g,
                                   ltx2JobId = g_jobId g, gen_filepath = g_filepath g,
                                   catalogued = False\<rparr>]\<rparr>;
                          scene' = scene\<lparr>matchedAssetId := Some aid, matchScore := Some 1.0,
                                         assetSource := Some generated\<rparr>;
                          w4 = w3\<lparr>calls := calls w3 @ [Catalog aid]\<rparr>;
                          w5 = (if catalogGeneratedAsset sv scene' (g_prompt g) (g_filepath g) sbId
                                then w4\<lparr>generatedAssets :=
                                       map (\<lambda>r. if gen_assetId r = aid then r\<lparr>catalogued := True\<rparr> else r)
                                           (generatedAssets w4)\<rparr>
                                else w4)
                      in (st\<lparr>world := w5,
                             resolvedAssets := resolvedAssets st @
                               [\<lparr>res_sceneId = sceneId scene, res_assetId = aid,
                                 localPath = g_filepath g, res_source = generated,
                                 confidence = 1.0, res_needsReview = False\<rparr>],
                             scenesOut := scenesOut st @ [scene']\<rparr>, None))))"

fun resolveLoop ::
  "Services \<Rightarrow> string \<Rightarrow> string \<Rightarrow> nat \<Rightarrow> nat \<Rightarrow> Scene list \<Rightarrow> ProdState \<Rightarrow> ProdState \<times> string option" where
  "resolveLoop sv jid sbId totalScenes i [] st = (st, None)"
| "resolveLoop sv jid sbId totalScenes i (scene # rest) st =
     (case resolveScene sv jid sbId totalScenes i scene st of
        (st', Some message) \<Rightarrow> (st', Some message)
      | (st', None) \<Rightarrow> resolveLoop sv jid sbId totalScenes (Suc i) rest st')"

text \<open>\<^verbatim>\<open>title.replace(/[^a-zA-Z0-9]/g, '_')\<close>.\<close>

definition sanitizeChar :: "char \<Rightarrow> char" where
  "sanitizeChar c =
     (if c \<in> set ''abcdefghijklmnopqrstuvwxyzABCDEFGHIJKLMNOPQRSTUVWXYZ0123456789''
      then c else CHR ''_'')"

definition processProductionJob :: "Services \<Rightarrow> string \<Rightarrow> string \<Rightarrow> World \<Rightarrow> World" where
  "processProductionJob sv jid sbId w0 =
     (let w1 = updateJobStatus jid matching 0.1 None w0
      in case find (\<lambda>sb. storyboardId sb = sbId) (storyboards w1) of
           None \<Rightarrow> failJob jid ''Storyboard not found'' w1
         | Some row \<Rightarrow>
             (case resolveLoop sv jid sbId (length (scenes row)) 0 (scenes row)
                     \<lparr>world = w1, resolvedAssets = [], scenesOut = []\<rparr> of
                (st, Some message) \<Rightarrow> failJob jid message (world st)
              | (st, None) \<Rightarrow>
                  (let w2 = updateStoryboardScenes sbId (scenesOut st) (world st);
                       w3 = updateJobStatus jid assembling 0.85 None w2;
                       outPath = OUTPUT_DIR @ ''/'' @ map sanitizeChar (title row) @ ''_'' @ jid @ ''.mp4''
                   in case assembleStoryboard (row\<lparr>scenes := scenesOut st\<rparr>) (resolvedAssets st) outPath of
                        Inl TypeError \<Rightarrow>
                          failJob jid ''Cannot read properties of undefined (reading includes)'' w3
                      | Inr cmd \<Rightarrow>
                          (let w4 = w3\<lparr>calls := calls w3 @ [Render cmd]\<rparr>
                           in case runFfmpeg sv cmd of
                                Some message \<Rightarrow> failJob jid message w4
                              | None \<Rightarrow> updateJobStatus jid completed 1.0 (Some outPath) w4))))"

text \<open>The scenes handed to \<open>generateVideoForScene\<close> and to \<open>matchSceneToAssets\<close> in a list
  of calls.\<close>

fun generateCalls :: "ServiceCall list \<Rightarrow> string list" where
  "generateCalls [] = []"
| "generateCalls (Generate sid # cs) = sid # generateCalls cs"
| "generateCalls (c # cs) = generateCalls cs"

fun matchQueries :: "ServiceCall list \<Rightarrow> string list" where
  "matchQueries [] = []"
| "matchQueries (MatchQuery sid # cs) = sid # matchQueries cs"
| "matchQueries (c # cs) = matchQueries cs"

subsection \<open>Example inputs\<close>

text \<open>A scene and candidate assets on which the functions above are evaluated below. With
  the query embedding \<open>[1, 0]\<close>, \<open>asset_095\<close> scores 1, 1, 1, 0.5 and 1 (composite 0.95),
  \<open>asset_080\<close> scores 1, 0.5, 0.5, 1 and 0.5 (composite 0.80), \<open>asset_orthogonal\<close> has
  semantic score 0, and \<open>asset_no_vector\<close> carries no embedding.\<close>

definition example_scene :: Scene where
  "example_scene =
     \<lparr>sceneId = ''sc_1'', sequence = 1, duration = 4, description = ''Ocean at dusk'',
      visualKeywords = [''Sunset''], styleHints = None, transitionIn = cut,
      transitionOut = fade, matchedAssetId = None, matchScore = None, assetSource = None,
      needsReview = False\<rparr>"

definition asset_095 :: LanceDBAsset where
  "asset_095 =
     \<lparr>asset_id = ''a95'', asset_filename = ''a95.mp4'', asset_filepath = ''/media/a95.mp4'',
      asset_source = ''stock'', media_type = ''video'', asset_description = None,
      tags = Some [''sunset''], style = None, use_case = Some ''Sunset'',
      width = Some 1920, height = Some 540, asset_duration = Some 6, fps = Some 30,
      vector = Some [1, 0]\<rparr>"

definition asset_080 :: LanceDBAsset where
  "asset_080 =
     \<lparr>asset_id = ''a80'', asset_filename = ''a80.mp4'', asset_filepath = ''/media/a80.mp4'',
      asset_source = ''stock'', media_type = ''video'', asset_description = None,
      tags = None, style = None, use_case = None,
      width = Some 1920, height = Some 1080, asset_duration = None, fps = None,
      vector = Some [1, 0]\<rparr>"

definition asset_orthogonal :: LanceDBAsset where
  "asset_orthogonal = asset_095\<lparr>asset_id := ''a00'', vector := Some [0, 1]\<rparr>"

definition asset_no_vector :: LanceDBAsset where
  "asset_no_vector = asset_095\<lparr>asset_id := ''a70'', vector := None\<rparr>"

definition match_095 :: AssetMatch where
  "match_095 =
     \<lparr>assetId = ''a95'', filepath = ''/media/a95.mp4'', semanticScore = 1, styleScore = 1,
      useCaseScore = 1, qualityScore = 1 / 2, durationScore = 1, compositeScore = Number (95 / 100),
      match_needsReview = False\<rparr>"

definition match_080 :: AssetMatch where
  "match_080 =
     \<lparr>assetId = ''a80'', filepath = ''/media/a80.mp4'', semanticScore = 1, styleScore = 1 / 2,
      useCaseScore = 1 / 2, qualityScore = 1, durationScore = 1 / 2, compositeScore = Number (80 / 100),
      match_needsReview = True\<rparr>"

definition example_embedding :: "unit EmbeddingService" where
  "example_embedding text = Inr [1, 0]"

definition example_search :: "LanceDBAsset list \<Rightarrow> unit SearchService" where
  "example_search found v limit mediaType = Inr found"

definition scene_of :: "string \<Rightarrow> real \<Rightarrow> TransitionType \<Rightarrow> Scene" where
  "scene_of sid d t = example_scene\<lparr>sceneId := sid, duration := d, transitionOut := t\<rparr>"

definition resolved_of :: "string \<Rightarrow> string \<Rightarrow> ResolvedAsset" where
  "resolved_of sid path =
     \<lparr>res_sceneId = sid, res_assetId = ''a80'', localPath = path, res_source = existing,
      confidence = 8 / 10, res_needsReview = True\<rparr>"

definition storyboard_of :: "Scene list \<Rightarrow> Storyboard" where
  "storyboard_of scs =
     \<lparr>storyboardId = ''sb_1'', title = ''Demo'', scenes = scs,
      outputResolution = (1920, 1080), outputFps = 30\<rparr>"

definition three_assets :: "ResolvedAsset list" where
  "three_assets =
     [resolved_of ''sc_1'' ''/media/a.mp4'', resolved_of ''sc_2'' ''/media/b.mp4'',
      resolved_of ''sc_3'' ''/media/c.mp4'']"

definition two_assets :: "ResolvedAsset list" where
  "two_assets = [resolved_of ''sc_1'' ''/media/a.mp4'', resolved_of ''sc_2'' ''/media/b.mp4'']"

definition scenes_fade_cut :: "Scene list" where
  "scenes_fade_cut = [scene_of ''sc_1'' 4 fade, scene_of ''sc_2'' 3 cut, scene_of ''sc_3'' 2 cut]"

definition scenes_all_cut :: "Scene list" where
  "scenes_all_cut = [scene_of ''sc_1'' 4 cut, scene_of ''sc_2'' 3 cut]"

definition example_options :: AssemblyOptions where
  "example_options =
     \<lparr>outputPath = ''/out/demo.mp4'', opt_width = Some 1920, opt_height = Some 1080,
      opt_fps = Some 30\<rparr>"

definition asset_073 :: LanceDBAsset where
  "asset_073 = asset_080\<lparr>asset_id := ''a73'', width := None, height := None\<rparr>"

definition match_073 :: AssetMatch where
  "match_073 =
     \<lparr>assetId = ''a73'', filepath = ''/media/a80.mp4'', semanticScore = 1, styleScore = 1 / 2,
      useCaseScore = 1 / 2, qualityScore = 3 / 10, durationScore = 1 / 2,
      compositeScore = Number (73 / 100), match_needsReview = False\<rparr>"


definition example_job :: JobRow where
  "example_job =
     \<lparr>jobId = ''job_1'', job_storyboardId = ''sb_1'', status = pending, progress = 0,
      job_outputPath = None, job_error = None\<rparr>"

definition world_fresh :: World where
  "world_fresh =
     \<lparr>storyboards = [storyboard_of [scene_of ''sc_1'' 4 cut]], sceneMatches = [],
      productionJobs = [example_job], generatedAssets = [], calls = []\<rparr>"

definition world_manual :: World where
  "world_manual =
     \<lparr>storyboards =
        [storyboard_of
           [(scene_of ''sc_1'' 4 cut)\<lparr>matchedAssetId := Some ''a80'', matchScore := Some 1,
               assetSource := Some manual, needsReview := False\<rparr>]],
      sceneMatches =
        [\<lparr>row_storyboardId = ''sb_1'', row_sceneId = ''sc_1'', row_assetId = ''a80'',
          assetPath = ''/media/a80.mp4'', row_source = manual, row_compositeScore = Number 1,
          row_needsReview = False\<rparr>],
      productionJobs = [example_job], generatedAssets = [], calls = []\<rparr>"


section \<open>Properties\<close>

lemmas CONFIG_defs =
  WEIGHTS_semanticSimilarity_def WEIGHTS_styleMatch_def WEIGHTS_useCaseMatch_def
  WEIGHTS_qualityScore_def WEIGHTS_durationFit_def
  THRESHOLDS_semanticMinimum_def THRESHOLDS_compositeMinimum_def THRESHOLDS_excellentMatch_def

subsection \<open>Rounding and cosine similarity\<close>


lemma roundToEven_eqI:
  assumes "of_int k - 1 / 2 < m" and "m < of_int k + 1 / 2"
  shows "roundToEven m = k"
proof -
  have "\<lfloor>m\<rfloor> = k \<or> \<lfloor>m\<rfloor> = k - 1" using assms by linarith
  then show ?thesis
  proof
    assume f: "\<lfloor>m\<rfloor> = k"
    with assms have "m - of_int k < 1 / 2" by linarith
    with f show ?thesis by (simp add: roundToEven_def Let_def)
  next
    assume f: "\<lfloor>m\<rfloor> = k - 1"
    with assms have "1 / 2 < m - of_int (k - 1)" by simp
    with f show ?thesis by (simp add: roundToEven_def Let_def)
  qed
qed

lemma roundToEven_of_int [simp]: "roundToEven (of_int k) = k"
  by (rule roundToEven_eqI) simp_all


lemma ulp_eqI:
  assumes "2 powr of_int e \<le> \<bar>x\<bar>" and "\<bar>x\<bar> < 2 powr (of_int e + 1)"
  shows "ulp x = 2 powr (of_int e - 52)"
proof -
  have "0 < \<bar>x\<bar>" using assms(1) powr_gt_zero [of 2 "of_int e"] by linarith
  then have "\<lfloor>log 2 \<bar>x\<bar>\<rfloor> = e"
    using assms by (simp add: floor_log_eq_powr_iff)
  then show ?thesis by (simp add: ulp_def)
qed

lemma fl_eqI:
  assumes "2 powr of_int e \<le> \<bar>x\<bar>" and "\<bar>x\<bar> < 2 powr (of_int e + 1)"
  shows "fl x = of_int (roundToEven (x / 2 powr (of_int e - 52))) * 2 powr (of_int e - 52)"
proof -
  have "x \<noteq> 0" using assms(1) powr_gt_zero [of 2 "of_int e"] by auto
  then show ?thesis by (simp add: fl_def ulp_eqI [OF assms])
qed



lemma fl_0 [simp]: "fl 0 = 0"
  by (simp add: fl_def)




lemma fl_evalI:
  assumes "2 powr of_int e \<le> \<bar>x\<bar>" and "\<bar>x\<bar> < 2 powr (of_int e + 1)"
    and "of_int k - 1 / 2 < x / 2 powr (of_int e - 52)"
    and "x / 2 powr (of_int e - 52) < of_int k + 1 / 2"
  shows "fl x = of_int k * 2 powr (of_int e - 52)"
  by (simp add: fl_eqI [OF assms(1,2)] roundToEven_eqI [OF assms(3,4)])

lemma fl_1 [simp]: "fl 1 = 1"
  using fl_evalI [of 0 1 "2 ^ 52"] by (simp add: powr_neg_numeral)

lemma fl_2 [simp]: "fl 2 = 2"
  using fl_evalI [of 1 2 "2 ^ 52"] by (simp add: powr_neg_numeral)















subsection \<open>Composite score\<close>

text \<open>
  Claim C9. The five weights (0.50, 0.20, 0.15, 0.10, 0.05) sum to 1, and for sub-scores
  that each lie in the interval from 0 to 1 the composite score computed by
  \<open>calculateCompositeScore\<close> lies in the interval from 0 to 1.
\<close>

theorem calculateCompositeScore_unit_interval:
  assumes "0 \<le> semantic s \<and> semantic s \<le> 1"
    and "0 \<le> style_s s \<and> style_s s \<le> 1"
    and "0 \<le> useCase s \<and> useCase s \<le> 1"
    and "0 \<le> quality s \<and> quality s \<le> 1"
    and "0 \<le> duration_s s \<and> duration_s s \<le> 1"
  shows "WEIGHTS_semanticSimilarity + WEIGHTS_styleMatch + WEIGHTS_useCaseMatch +
           WEIGHTS_qualityScore + WEIGHTS_durationFit = 1 \<and>
         0 \<le> calculateCompositeScore s \<and> calculateCompositeScore s \<le> 1"
  using assms by (simp add: calculateCompositeScore_def CONFIG_defs)

theorem calculateCompositeScore_unit_interval_witness:
  "calculateCompositeScore
     \<lparr>semantic = 1, style_s = 1, useCase = 1, quality = 1, duration_s = 1\<rparr> \<le> 1 \<and>
   0 \<le> calculateCompositeScore
     \<lparr>semantic = 0, style_s = 1 / 2, useCase = 0, quality = 3 / 10, duration_s = 1\<rparr> \<and>
   calculateCompositeScore
     \<lparr>semantic = 1, style_s = 1, useCase = 1, quality = 1, duration_s = 1\<rparr> = 1"
  using calculateCompositeScore_unit_interval
          [of "\<lparr>semantic = 1, style_s = 1, useCase = 1, quality = 1, duration_s = 1\<rparr>"]
        calculateCompositeScore_unit_interval
          [of "\<lparr>semantic = 0, style_s = 1 / 2, useCase = 0, quality = 3 / 10, duration_s = 1\<rparr>"]
  by (simp add: calculateCompositeScore_def CONFIG_defs)


subsection \<open>Matching\<close>

lemmas matcher_defs =
  jsLess_def jsGreaterEq_def sortKey_def scoreCandidate_def semanticOf_def cosineSimilarity_def calculateStyleScore_def
  calculateUseCaseScore_def calculateQualityScore_def calculateDurationScore_def
  calculateCompositeScore_def CONFIG_defs orNum_def Let_def toLowerCase_def lowerChar_def
  splitWhitespace_def isSpace_def sublist_code prefix_code

lemmas example_defs =
  example_scene_def asset_095_def asset_080_def asset_orthogonal_def asset_no_vector_def
  match_095_def match_080_def example_embedding_def example_search_def

lemma scoreLoop_map_filter:
  "scoreLoop scene embedding candidates matches =
     matches @ List.map_filter (scoreCandidate scene embedding) candidates"
  by (induction candidates arbitrary: matches)
     (auto simp: List.map_filter_simps split: option.splits)

lemma set_scoreLoop:
  "set (scoreLoop scene embedding candidates []) =
     {m. \<exists>a\<in>set candidates. scoreCandidate scene embedding a = Some m}"
  by (force simp: scoreLoop_map_filter List.map_filter_def image_iff)

lemma scoreCandidate_None_iff:
  "scoreCandidate scene embedding a = None \<longleftrightarrow>
     semanticOf embedding a < THRESHOLDS_semanticMinimum"
  by (simp add: scoreCandidate_def Let_def)

lemma scoreCandidate_Some:
  assumes "scoreCandidate scene embedding a = Some m"
  shows "semanticScore m = semanticOf embedding a"
    and "\<not> semanticOf embedding a < THRESHOLDS_semanticMinimum"
    and "assetId m = asset_id a"
    and "match_needsReview m \<longleftrightarrow>
           jsGreaterEq (compositeScore m) THRESHOLDS_compositeMinimum \<and>
           jsLess (compositeScore m) THRESHOLDS_excellentMatch"
    and "compositeScore m \<noteq> NaN"
  using assms by (auto simp: scoreCandidate_def Let_def jsLess_def jsGreaterEq_def split: if_splits)

lemma scoreLoop_filter:
  assumes "\<And>a. a \<in> set candidates \<Longrightarrow> \<not> keep a \<Longrightarrow> scoreCandidate scene embedding a = None"
  shows "scoreLoop scene embedding (filter keep candidates) matches =
         scoreLoop scene embedding candidates matches"
  using assms
  by (induction candidates arbitrary: matches) (auto split: option.splits)

lemma matchSceneToAssets_Inr:
  assumes "generateEmbedding (searchText scene) = Inr embedding"
    and "searchLanceDB embedding 20 (if duration scene > 0 then Some ''video'' else None)
           = Inr candidates"
  shows "matchSceneToAssets generateEmbedding searchLanceDB scene =
           Inr (sortByComposite (scoreLoop scene embedding candidates []))"
  using assms by (simp add: matchSceneToAssets_def Let_def)

lemma set_sortByComposite: "set (sortByComposite ms) = set ms"
  by (simp add: sortByComposite_def)

lemma getBestMatch_in_set: "getBestMatch ms = Some m \<Longrightarrow> m \<in> set ms"
  by (auto simp: getBestMatch_def split: list.splits if_splits)

lemma example_scores:
  "scoreCandidate example_scene [1, 0] asset_095 = Some match_095"
  "scoreCandidate example_scene [1, 0] asset_080 = Some match_080"
  "scoreCandidate example_scene [1, 0] asset_orthogonal = None"
  "scoreCandidate example_scene [1, 0] asset_no_vector = None"
  by (simp_all add: example_defs matcher_defs)

lemma example_sort:
  "sortByComposite [match_080, match_095] = [match_095, match_080]"
  by (simp add: sortByComposite_def sortKey_def match_080_def match_095_def)


text \<open>
  Claim C4. A candidate that carries no embedding vector gets the default semantic score
  0.7, which is below the semantic floor 0.72, so the loop skips it before any other
  score is computed: the result of \<open>matchSceneToAssets\<close> is the one obtained from the
  candidates that carry a vector, every returned match comes from a candidate with a
  vector, and so does the match chosen by \<open>getBestMatch\<close>.
\<close>

theorem candidate_without_vector_discarded:
  assumes "generateEmbedding (searchText scene) = Inr embedding"
    and "searchLanceDB embedding 20 (if duration scene > 0 then Some ''video'' else None)
           = Inr candidates"
  shows "(\<forall>a\<in>set candidates. vector a = None \<longrightarrow>
            semanticOf embedding a = 7 / 10 \<and>
            semanticOf embedding a < THRESHOLDS_semanticMinimum \<and>
            scoreCandidate scene embedding a = None) \<and>
         matchSceneToAssets generateEmbedding searchLanceDB scene =
           Inr (sortByComposite
                 (scoreLoop scene embedding (filter (\<lambda>a. vector a \<noteq> None) candidates) [])) \<and>
         (\<forall>ms. matchSceneToAssets generateEmbedding searchLanceDB scene = Inr ms \<longrightarrow>
            (\<forall>m\<in>set ms. \<exists>a\<in>set candidates.
                vector a \<noteq> None \<and> scoreCandidate scene embedding a = Some m) \<and>
            (\<forall>m. getBestMatch ms = Some m \<longrightarrow>
                (\<exists>a\<in>set candidates.
                   vector a \<noteq> None \<and> scoreCandidate scene embedding a = Some m)))"
proof -
  have drop: "semanticOf embedding a = 7 / 10 \<and>
              semanticOf embedding a < THRESHOLDS_semanticMinimum \<and>
              scoreCandidate scene embedding a = None" if "vector a = None" for a
    using that by (simp add: semanticOf_def scoreCandidate_def Let_def CONFIG_defs)
  have res: "matchSceneToAssets generateEmbedding searchLanceDB scene =
               Inr (sortByComposite (scoreLoop scene embedding candidates []))"
    using assms by (rule matchSceneToAssets_Inr)
  have flt: "scoreLoop scene embedding (filter (\<lambda>a. vector a \<noteq> None) candidates) [] =
             scoreLoop scene embedding candidates []"
    by (rule scoreLoop_filter) (simp add: drop)
  have origin: "\<exists>a\<in>set candidates. vector a \<noteq> None \<and> scoreCandidate scene embedding a = Some m"
    if "m \<in> set (sortByComposite (scoreLoop scene embedding candidates []))" for m
  proof -
    from that obtain a where a: "a \<in> set candidates" "scoreCandidate scene embedding a = Some m"
      by (auto simp: set_sortByComposite set_scoreLoop)
    with drop [of a] have "vector a \<noteq> None" by auto
    with a show ?thesis by blast
  qed
  show ?thesis
  proof (intro conjI allI impI ballI)
    fix a assume "a \<in> set candidates" "vector a = None"
    then show "semanticOf embedding a = 7 / 10"
      and "semanticOf embedding a < THRESHOLDS_semanticMinimum"
      and "scoreCandidate scene embedding a = None"
      using drop by simp_all
  next
    show "matchSceneToAssets generateEmbedding searchLanceDB scene =
            Inr (sortByComposite
                  (scoreLoop scene embedding (filter (\<lambda>a. vector a \<noteq> None) candidates) []))"
      unfolding flt by (rule res)
  next
    fix ms m
    assume "matchSceneToAssets generateEmbedding searchLanceDB scene = Inr ms" "m \<in> set ms"
    with res origin
    show "\<exists>a\<in>set candidates. vector a \<noteq> None \<and> scoreCandidate scene embedding a = Some m"
      by simp
  next
    fix ms m
    assume "matchSceneToAssets generateEmbedding searchLanceDB scene = Inr ms"
      "getBestMatch ms = Some m"
    with res origin getBestMatch_in_set [of ms m]
    show "\<exists>a\<in>set candidates. vector a \<noteq> None \<and> scoreCandidate scene embedding a = Some m"
      by simp
  qed
qed

theorem candidate_without_vector_discarded_witness:
  "vector asset_no_vector = None \<and>
   semanticOf [1, 0] asset_no_vector = 7 / 10 \<and>
   scoreCandidate example_scene [1, 0] asset_no_vector = None \<and>
   matchSceneToAssets example_embedding (example_search [asset_no_vector, asset_080])
     example_scene = Inr [match_080] \<and>
   getBestMatch [match_080] = Some match_080"
proof -
  have e: "example_embedding (searchText example_scene) = Inr [1, 0]"
    by (simp add: example_embedding_def)
  have s: "example_search [asset_no_vector, asset_080] [1, 0] 20
             (if duration example_scene > 0 then Some ''video'' else None)
           = Inr [asset_no_vector, asset_080]"
    by (simp add: example_search_def)
  have v: "vector asset_no_vector = None"
    by (simp add: asset_no_vector_def asset_095_def)
  have f: "filter (\<lambda>a. vector a \<noteq> None) [asset_no_vector, asset_080] = [asset_080]"
    by (simp add: asset_no_vector_def asset_095_def asset_080_def)
  have b: "getBestMatch [match_080] = Some match_080"
    by (simp add: getBestMatch_def jsGreaterEq_def match_080_def CONFIG_defs)
  note inst = candidate_without_vector_discarded
         [where generateEmbedding = example_embedding and scene = example_scene
            and embedding = "[1, 0]" and searchLanceDB = "example_search [asset_no_vector, asset_080]"
            and candidates = "[asset_no_vector, asset_080]", OF e s]
  from inst have "\<forall>a\<in>set [asset_no_vector, asset_080]. vector a = None \<longrightarrow>
            semanticOf [1, 0] a = 7 / 10 \<and>
            semanticOf [1, 0] a < THRESHOLDS_semanticMinimum \<and>
            scoreCandidate example_scene [1, 0] a = None"
    by (rule conjunct1)
  with v have d: "semanticOf [1, 0] asset_no_vector = 7 / 10"
    "scoreCandidate example_scene [1, 0] asset_no_vector = None"
    by simp_all
  from inst have "matchSceneToAssets example_embedding (example_search [asset_no_vector, asset_080])
       example_scene =
     Inr (sortByComposite (scoreLoop example_scene [1, 0]
            (filter (\<lambda>a. vector a \<noteq> None) [asset_no_vector, asset_080]) []))"
    by (rule conjunct1 [OF conjunct2])
  then have r: "matchSceneToAssets example_embedding (example_search [asset_no_vector, asset_080])
       example_scene = Inr [match_080]"
    unfolding f by (simp add: example_scores sortByComposite_def)
  from v d r b show ?thesis by simp
qed

text \<open>
  Claim C6. A candidate whose semantic score is below 0.72 is skipped by the loop of
  \<open>matchSceneToAssets\<close> whatever its other scores would be: the result is the one obtained
  from the candidates at or above the floor, every match of the sorted list has a
  semantic score of at least 0.72 and is the score record of such a candidate, and so is
  the match chosen by \<open>getBestMatch\<close>.
\<close>

theorem candidate_below_semantic_floor_never_returned:
  assumes "generateEmbedding (searchText scene) = Inr embedding"
    and "searchLanceDB embedding 20 (if duration scene > 0 then Some ''video'' else None)
           = Inr candidates"
  shows "THRESHOLDS_semanticMinimum = 72 / 100 \<and>
         (\<forall>a\<in>set candidates. semanticOf embedding a < 72 / 100 \<longrightarrow>
            scoreCandidate scene embedding a = None) \<and>
         matchSceneToAssets generateEmbedding searchLanceDB scene =
           Inr (sortByComposite
                 (scoreLoop scene embedding
                   (filter (\<lambda>a. \<not> semanticOf embedding a < 72 / 100) candidates) [])) \<and>
         (\<forall>ms. matchSceneToAssets generateEmbedding searchLanceDB scene = Inr ms \<longrightarrow>
            (\<forall>m\<in>set ms. 72 / 100 \<le> semanticScore m \<and>
               (\<exists>a\<in>set candidates. 72 / 100 \<le> semanticOf embedding a \<and>
                  scoreCandidate scene embedding a = Some m)) \<and>
            (\<forall>m. getBestMatch ms = Some m \<longrightarrow> 72 / 100 \<le> semanticScore m))"
proof -
  have floor: "THRESHOLDS_semanticMinimum = 72 / 100" by (simp add: CONFIG_defs)
  have drop: "scoreCandidate scene embedding a = None" if "semanticOf embedding a < 72 / 100" for a
    using that by (simp add: scoreCandidate_None_iff floor)
  have res: "matchSceneToAssets generateEmbedding searchLanceDB scene =
               Inr (sortByComposite (scoreLoop scene embedding candidates []))"
    using assms by (rule matchSceneToAssets_Inr)
  have flt: "scoreLoop scene embedding
               (filter (\<lambda>a. \<not> semanticOf embedding a < 72 / 100) candidates) [] =
             scoreLoop scene embedding candidates []"
    by (rule scoreLoop_filter) (simp add: drop)
  have origin: "72 / 100 \<le> semanticScore m \<and>
      (\<exists>a\<in>set candidates. 72 / 100 \<le> semanticOf embedding a \<and>
          scoreCandidate scene embedding a = Some m)"
    if "m \<in> set (sortByComposite (scoreLoop scene embedding candidates []))" for m
  proof -
    from that obtain a where a: "a \<in> set candidates" "scoreCandidate scene embedding a = Some m"
      by (auto simp: set_sortByComposite set_scoreLoop)
    from scoreCandidate_Some(1,2) [OF a(2)] floor
    have "72 / 100 \<le> semanticScore m" "72 / 100 \<le> semanticOf embedding a" by simp_all
    with a show ?thesis by blast
  qed
  show ?thesis
  proof (intro conjI allI impI ballI)
    show "THRESHOLDS_semanticMinimum = 72 / 100" by (rule floor)
  next
    fix a assume "a \<in> set candidates" "semanticOf embedding a < 72 / 100"
    then show "scoreCandidate scene embedding a = None" using drop by simp
  next
    show "matchSceneToAssets generateEmbedding searchLanceDB scene =
            Inr (sortByComposite
                  (scoreLoop scene embedding
                    (filter (\<lambda>a. \<not> semanticOf embedding a < 72 / 100) candidates) []))"
      unfolding flt by (rule res)
  next
    fix ms m
    assume "matchSceneToAssets generateEmbedding searchLanceDB scene = Inr ms" "m \<in> set ms"
    with res origin show "72 / 100 \<le> semanticScore m"
      and "\<exists>a\<in>set candidates. 72 / 100 \<le> semanticOf embedding a \<and>
             scoreCandidate scene embedding a = Some m"
      by simp_all
  next
    fix ms m
    assume "matchSceneToAssets generateEmbedding searchLanceDB scene = Inr ms"
      "getBestMatch ms = Some m"
    with res origin getBestMatch_in_set [of ms m]
    show "72 / 100 \<le> semanticScore m" by simp
  qed
qed

theorem candidate_below_semantic_floor_never_returned_witness:
  "semanticOf [1, 0] asset_orthogonal = 0 \<and>
   calculateStyleScore example_scene asset_orthogonal = 1 \<and>
   calculateUseCaseScore example_scene asset_orthogonal = 1 \<and>
   scoreCandidate example_scene [1, 0] asset_orthogonal = None \<and>
   matchSceneToAssets example_embedding (example_search [asset_orthogonal, asset_080])
     example_scene = Inr [match_080] \<and>
   72 / 100 \<le> semanticScore match_080 \<and>
   getBestMatch [match_080] = Some match_080"
proof -
  have e: "example_embedding (searchText example_scene) = Inr [1, 0]"
    by (simp add: example_embedding_def)
  have s: "example_search [asset_orthogonal, asset_080] [1, 0] 20
             (if duration example_scene > 0 then Some ''video'' else None)
           = Inr [asset_orthogonal, asset_080]"
    by (simp add: example_search_def)
  have v: "semanticOf [1, 0] asset_orthogonal = 0" "semanticOf [1, 0] asset_080 = 1"
    "calculateStyleScore example_scene asset_orthogonal = 1"
    "calculateUseCaseScore example_scene asset_orthogonal = 1"
    by (simp_all add: example_defs matcher_defs)
  have b: "getBestMatch [match_080] = Some match_080" "semanticScore match_080 = 1"
    by (simp_all add: getBestMatch_def jsGreaterEq_def match_080_def CONFIG_defs)
  from candidate_below_semantic_floor_never_returned
         [where generateEmbedding = example_embedding and scene = example_scene
            and embedding = "[1, 0]" and searchLanceDB = "example_search [asset_orthogonal, asset_080]"
            and candidates = "[asset_orthogonal, asset_080]", OF e s] v b
  show ?thesis
    by (simp add: example_scores sortByComposite_def)
qed

text \<open>
  Claim C8. Every match returned by \<open>matchSceneToAssets\<close> has its review flag set if and
  only if its composite score is at least 0.78 and below 0.90. A match with composite
  0.95 at the head of the list is the one chosen by \<open>getBestMatch\<close> and is not flagged; a
  match with composite 0.80 at the head of the list is chosen and is flagged.
\<close>

theorem needsReview_iff_composite_between_thresholds:
  assumes "generateEmbedding (searchText scene) = Inr embedding"
    and "searchLanceDB embedding 20 (if duration scene > 0 then Some ''video'' else None)
           = Inr candidates"
  shows "\<exists>ms. matchSceneToAssets generateEmbedding searchLanceDB scene = Inr ms \<and>
          set ms = {m. \<exists>a\<in>set candidates. scoreCandidate scene embedding a = Some m} \<and>
          (\<forall>m\<in>set ms.
             (match_needsReview m \<longleftrightarrow>
                jsGreaterEq (compositeScore m) (78 / 100) \<and> jsLess (compositeScore m) (90 / 100)) \<and>
             (compositeScore m = Number (95 / 100) \<longrightarrow>
                \<not> match_needsReview m \<and> getBestMatch (m # rest) = Some m) \<and>
             (compositeScore m = Number (80 / 100) \<longrightarrow>
                match_needsReview m \<and> getBestMatch (m # rest) = Some m))"
proof -
  let ?ms = "sortByComposite (scoreLoop scene embedding candidates [])"
  have res: "matchSceneToAssets generateEmbedding searchLanceDB scene = Inr ?ms"
    using assms by (rule matchSceneToAssets_Inr)
  have elems: "set ?ms = {m. \<exists>a\<in>set candidates. scoreCandidate scene embedding a = Some m}"
    by (simp add: set_sortByComposite set_scoreLoop)
  have flag: "match_needsReview m \<longleftrightarrow>
      jsGreaterEq (compositeScore m) (78 / 100) \<and> jsLess (compositeScore m) (90 / 100)"
    if "m \<in> set ?ms" for m
  proof -
    from that elems obtain a where "scoreCandidate scene embedding a = Some m" by auto
    from scoreCandidate_Some(4) [OF this] show ?thesis by (simp add: CONFIG_defs)
  qed
  have "(match_needsReview m \<longleftrightarrow>
           jsGreaterEq (compositeScore m) (78 / 100) \<and> jsLess (compositeScore m) (90 / 100)) \<and>
        (compositeScore m = Number (95 / 100) \<longrightarrow>
           \<not> match_needsReview m \<and> getBestMatch (m # rest) = Some m) \<and>
        (compositeScore m = Number (80 / 100) \<longrightarrow>
           match_needsReview m \<and> getBestMatch (m # rest) = Some m)"
    if "m \<in> set ?ms" for m
    using flag [OF that] by (auto simp: getBestMatch_def CONFIG_defs jsLess_def jsGreaterEq_def)
  with res elems show ?thesis by blast
qed

theorem needsReview_iff_composite_between_thresholds_witness:
  "matchSceneToAssets example_embedding (example_search [asset_080, asset_095]) example_scene
     = Inr [match_095, match_080] \<and>
   compositeScore match_095 = Number (95 / 100) \<and> \<not> match_needsReview match_095 \<and>
   getBestMatch [match_095, match_080] = Some match_095 \<and>
   compositeScore match_080 = Number (80 / 100) \<and> match_needsReview match_080 \<and>
   getBestMatch [match_080] = Some match_080"
proof -
  have e: "example_embedding (searchText example_scene) = Inr [1, 0]"
    by (simp add: example_embedding_def)
  have s: "example_search [asset_080, asset_095] [1, 0] 20
             (if duration example_scene > 0 then Some ''video'' else None)
           = Inr [asset_080, asset_095]"
    by (simp add: example_search_def)
  have r: "matchSceneToAssets example_embedding (example_search [asset_080, asset_095])
             example_scene = Inr [match_095, match_080]"
    using e s by (simp add: matchSceneToAssets_def Let_def scoreLoop_map_filter
        List.map_filter_simps example_scores example_sort)
  have c: "compositeScore match_095 = Number (95 / 100)"
    "compositeScore match_080 = Number (80 / 100)"
    by (simp_all add: match_095_def match_080_def)
  note inst = needsReview_iff_composite_between_thresholds
         [where generateEmbedding = example_embedding and scene = example_scene
            and embedding = "[1, 0]" and searchLanceDB = "example_search [asset_080, asset_095]"
            and candidates = "[asset_080, asset_095]", OF e s]
  from inst [of "[match_080]"] inst [of "[]"] r c
  show ?thesis by auto
qed

subsection \<open>Assembly\<close>

lemmas assembler_defs =
  transitionLoop_def transitionStep_def elemAt_def durationOr5_def transitionDuration_def
  transitionName_def Let_def

lemma transitionStep_parts:
  "\<exists>p. filterParts (transitionStep n scs st i) = filterParts st @ [p] \<and> \<not> isScale p \<and>
       (if i = n - 1 then outLabel p = Outv \<and> includesOutv p
        else outLabel p \<noteq> Outv \<and> (currentInput st \<noteq> Outv \<longrightarrow> \<not> includesOutv p)) \<and>
       (currentInput st \<noteq> Outv \<longrightarrow> currentInput (transitionStep n scs st i) \<noteq> Outv)"
  by (auto simp: transitionStep_def Let_def)

lemma upt_1_Suc: "[1..<Suc (Suc k)] = [1..<Suc k] @ [Suc k]"
  by simp

lemma loop_prefix:
  "Suc k < n \<Longrightarrow>
   \<exists>js. filterParts (foldl (transitionStep n scs)
            \<lparr>filterParts = map (\<lambda>i. Scale i nf) [0..<n], currentInput = V 0, offset = 0\<rparr> [1..<Suc k])
          = map (\<lambda>i. Scale i nf) [0..<n] @ js \<and> length js = k \<and>
         (\<forall>p\<in>set js. \<not> isScale p \<and> outLabel p \<noteq> Outv) \<and>
         currentInput (foldl (transitionStep n scs)
            \<lparr>filterParts = map (\<lambda>i. Scale i nf) [0..<n], currentInput = V 0, offset = 0\<rparr> [1..<Suc k])
          \<noteq> Outv"
proof (induction k)
  case 0
  then show ?case by simp
next
  case (Suc k)
  let ?init = "\<lparr>filterParts = map (\<lambda>i. Scale i nf) [0..<n], currentInput = V 0, offset = 0\<rparr>"
  let ?st = "foldl (transitionStep n scs) ?init [1..<Suc k]"
  from Suc.prems have "Suc k < n" by simp
  from Suc.IH [OF this] obtain js where js:
    "filterParts ?st = map (\<lambda>i. Scale i nf) [0..<n] @ js" "length js = k"
    "\<forall>p\<in>set js. \<not> isScale p \<and> outLabel p \<noteq> Outv" "currentInput ?st \<noteq> Outv"
    by blast
  have unfold: "foldl (transitionStep n scs) ?init [1..<Suc (Suc k)] = transitionStep n scs ?st (Suc k)"
    by (simp only: upt_1_Suc foldl_append foldl.simps)
  from transitionStep_parts [of n scs ?st "Suc k"] obtain p where p:
    "filterParts (transitionStep n scs ?st (Suc k)) = filterParts ?st @ [p]" "\<not> isScale p"
    "if Suc k = n - 1 then outLabel p = Outv \<and> includesOutv p
        else outLabel p \<noteq> Outv \<and> (currentInput ?st \<noteq> Outv \<longrightarrow> \<not> includesOutv p)"
    "currentInput ?st \<noteq> Outv \<longrightarrow> currentInput (transitionStep n scs ?st (Suc k)) \<noteq> Outv"
    by blast
  from Suc.prems have "Suc k \<noteq> n - 1" by simp
  with p(3) have "outLabel p \<noteq> Outv" by simp
  with p js show ?case
    unfolding unfold by (intro exI [of _ "js @ [p]"]) auto
qed

lemma transitionLoop_shape:
  assumes "2 \<le> n"
  shows "\<exists>js p. filterParts (transitionLoop n scs nf) = map (\<lambda>i. Scale i nf) [0..<n] @ js @ [p] \<and>
           length js = n - 2 \<and> (\<forall>q\<in>set js. \<not> isScale q \<and> outLabel q \<noteq> Outv) \<and>
           \<not> isScale p \<and> outLabel p = Outv \<and> includesOutv p"
proof -
  from assms obtain k where n: "n = Suc (Suc k)" by (auto simp: numeral_2_eq_2 le_Suc_eq dest: Suc_le_D)
  let ?init = "\<lparr>filterParts = map (\<lambda>i. Scale i nf) [0..<n], currentInput = V 0, offset = 0\<rparr>"
  let ?st = "foldl (transitionStep n scs) ?init [1..<Suc k]"
  have "Suc k < n" using n by simp
  from loop_prefix [OF this, of scs nf] obtain js where js:
    "filterParts ?st = map (\<lambda>i. Scale i nf) [0..<n] @ js" "length js = k"
    "\<forall>p\<in>set js. \<not> isScale p \<and> outLabel p \<noteq> Outv"
    by blast
  have unfold: "transitionLoop n scs nf = transitionStep n scs ?st (Suc k)"
    unfolding transitionLoop_def n by (simp only: upt_1_Suc foldl_append foldl.simps)
  from transitionStep_parts [of n scs ?st "Suc k"] obtain p where p:
    "filterParts (transitionStep n scs ?st (Suc k)) = filterParts ?st @ [p]" "\<not> isScale p"
    "if Suc k = n - 1 then outLabel p = Outv \<and> includesOutv p
        else outLabel p \<noteq> Outv \<and> (currentInput ?st \<noteq> Outv \<longrightarrow> \<not> includesOutv p)"
    by blast
  have "Suc k = n - 1" using n by simp
  with p(3) have "outLabel p = Outv" "includesOutv p" by simp_all
  with p js n show ?thesis
    unfolding unfold by (intro exI [of _ js] exI [of _ p]) auto
qed


lemma upt_small:
  "[Suc 0..<3] = [Suc 0, 2]" "[0..<3] = [0, Suc 0, 2]" "[Suc 0..<2] = [Suc 0]" "[0..<2] = [0, Suc 0]"
  by (simp_all add: upt_rec)

lemma offset_transitionStep:
  "offset (transitionStep n scs st i) =
     (if i = 1 then durationOr5 scs 0
      else offset st + durationOr5 scs (i - 1) - transitionDuration)"
  by (simp add: transitionStep_def Let_def)

lemma offset_accumulates:
  "offset (foldl (transitionStep n scs) st [1..<Suc (Suc k)]) =
     (\<Sum>j<Suc k. durationOr5 scs j) - real k * transitionDuration"
proof (induction k)
  case 0
  have "[1..<Suc (Suc 0)] = [1]" by (simp add: upt_rec)
  then show ?case by (simp add: offset_transitionStep)
next
  case (Suc k)
  have "foldl (transitionStep n scs) st [1..<Suc (Suc (Suc k))] =
        transitionStep n scs (foldl (transitionStep n scs) st [1..<Suc (Suc k)]) (Suc (Suc k))"
    by (simp only: upt_1_Suc foldl_append foldl.simps)
  then have "offset (foldl (transitionStep n scs) st [1..<Suc (Suc (Suc k))]) =
        offset (foldl (transitionStep n scs) st [1..<Suc (Suc k)]) +
          durationOr5 scs (Suc k) - transitionDuration"
    by (simp only: offset_transitionStep) simp
  also have "\<dots> = (\<Sum>j<Suc k. durationOr5 scs j) - real k * transitionDuration +
          durationOr5 scs (Suc k) - transitionDuration"
    by (simp only: Suc.IH)
  also have "\<dots> = (\<Sum>j<Suc (Suc k). durationOr5 scs j) - real (Suc k) * transitionDuration"
    by (simp add: algebra_simps)
  finally show ?case .
qed

text \<open>
  Claim C2. For three resolved assets whose first two scenes have the outgoing
  transitions fade and cut (and nonzero durations), the loop emits exactly two junction
  parts after the three scale filters, a cross-fade and a concatenation, and the offset
  the loop has computed at the second junction is the duration of scene 1 plus the
  duration of scene 2 minus the transition duration 0.5.
\<close>

theorem fade_cut_three_assets:
  assumes "length assets = 3" and "2 \<le> length scs"
    and "transitionOut (scs ! 0) = fade" and "transitionOut (scs ! 1) = cut"
    and "duration (scs ! 0) \<noteq> 0" and "duration (scs ! 1) \<noteq> 0"
  shows "transitionLoop 3 scs nf =
           \<lparr>filterParts =
              [Scale 0 nf, Scale 1 nf, Scale 2 nf,
               Xfade (V 0) 1 ''fade'' (1 / 2) (duration (scs ! 0) - 1 / 2) (XfadeLabel 1),
               Concat2 (XfadeLabel 1) 2 Outv],
            currentInput = XfadeLabel 1,
            offset = duration (scs ! 0) + duration (scs ! 1) - 1 / 2\<rparr> \<and>
         length (junctions (filterParts (transitionLoop 3 scs nf))) = 2 \<and>
         assembleWithTransitions assets scs options =
           Inr (FilterComplex (map localPath assets)
                  [Scale 0 (normalizeOf options), Scale 1 (normalizeOf options),
                   Scale 2 (normalizeOf options),
                   Xfade (V 0) 1 ''fade'' (1 / 2) (duration (scs ! 0) - 1 / 2) (XfadeLabel 1),
                   Concat2 (XfadeLabel 1) 2 Outv]
                  (outputPath options))"
proof -
  have loop: "transitionLoop 3 scs nf =
           \<lparr>filterParts =
              [Scale 0 nf, Scale 1 nf, Scale 2 nf,
               Xfade (V 0) 1 ''fade'' (1 / 2) (duration (scs ! 0) - 1 / 2) (XfadeLabel 1),
               Concat2 (XfadeLabel 1) 2 Outv],
            currentInput = XfadeLabel 1,
            offset = duration (scs ! 0) + duration (scs ! 1) - 1 / 2\<rparr>" for nf
  proof -
    from assms(2) have "0 < length scs" and "Suc 0 < length scs" by arith+
    with assms(3-6) show ?thesis by (simp add: assembler_defs upt_small)
  qed
  have j: "length (junctions (filterParts (transitionLoop 3 scs nf))) = 2"
    by (simp add: loop)
  have "assembleWithTransitions assets scs options =
           Inr (FilterComplex (map localPath assets)
                  [Scale 0 (normalizeOf options), Scale 1 (normalizeOf options),
                   Scale 2 (normalizeOf options),
                   Xfade (V 0) 1 ''fade'' (1 / 2) (duration (scs ! 0) - 1 / 2) (XfadeLabel 1),
                   Concat2 (XfadeLabel 1) 2 Outv]
                  (outputPath options))"
    using assms(1) by (simp add: assembleWithTransitions_def loop concatFallback_def)
  with loop j show ?thesis by simp
qed


lemmas plan_defs =
  three_assets_def two_assets_def scenes_fade_cut_def scenes_all_cut_def example_options_def
  scene_of_def resolved_of_def storyboard_of_def example_scene_def

theorem fade_cut_three_assets_witness:
  "offset (transitionLoop 3 scenes_fade_cut (ScalePadFps 1920 1080 30)) = 4 + 3 - 1 / 2 \<and>
   length (junctions (filterParts (transitionLoop 3 scenes_fade_cut (ScalePadFps 1920 1080 30)))) = 2 \<and>
   assembleWithTransitions three_assets scenes_fade_cut example_options =
     Inr (FilterComplex [''/media/a.mp4'', ''/media/b.mp4'', ''/media/c.mp4'']
            [Scale 0 (ScalePadFps 1920 1080 30), Scale 1 (ScalePadFps 1920 1080 30),
             Scale 2 (ScalePadFps 1920 1080 30),
             Xfade (V 0) 1 ''fade'' (1 / 2) (7 / 2) (XfadeLabel 1),
             Concat2 (XfadeLabel 1) 2 Outv]
            ''/out/demo.mp4'')"
proof -
  have h: "length three_assets = 3" "2 \<le> length scenes_fade_cut"
    "transitionOut (scenes_fade_cut ! 0) = fade" "transitionOut (scenes_fade_cut ! 1) = cut"
    "duration (scenes_fade_cut ! 0) \<noteq> 0" "duration (scenes_fade_cut ! 1) \<noteq> 0"
    by (simp_all add: plan_defs)
  have v: "duration (scenes_fade_cut ! 0) = 4" "duration (scenes_fade_cut ! 1) = 3"
    "map localPath three_assets = [''/media/a.mp4'', ''/media/b.mp4'', ''/media/c.mp4'']"
    "normalizeOf example_options = ScalePadFps 1920 1080 30"
    "outputPath example_options = ''/out/demo.mp4''"
    by (simp_all add: plan_defs normalizeOf_def orNum_def)
  from fade_cut_three_assets [OF h, of "ScalePadFps 1920 1080 30" example_options] v
  show ?thesis by simp
qed

lemma filter_isScale_scales:
  "filter isScale (map (\<lambda>i. Scale i nf) xs) = map (\<lambda>i. Scale i nf) xs"
  by (induction xs) auto

lemma filter_outv_scales:
  "filter (\<lambda>p. outLabel p = Outv) (map (\<lambda>i. Scale i nf) xs) = []"
  by (induction xs) auto

lemma assembleWithTransitions_many:
  assumes "2 \<le> length assets"
  shows "\<exists>js p. assembleWithTransitions assets scs options =
           Inr (FilterComplex (map localPath assets)
                  (map (\<lambda>i. Scale i (normalizeOf options)) [0..<length assets] @ js @ [p])
                  (outputPath options)) \<and>
           length js = length assets - 2 \<and>
           (\<forall>q\<in>set js. \<not> isScale q \<and> outLabel q \<noteq> Outv) \<and>
           \<not> isScale p \<and> outLabel p = Outv"
proof -
  from transitionLoop_shape [OF assms, of scs "normalizeOf options"] obtain js p where s:
    "filterParts (transitionLoop (length assets) scs (normalizeOf options)) =
       map (\<lambda>i. Scale i (normalizeOf options)) [0..<length assets] @ js @ [p]"
    "length js = length assets - 2" "\<forall>q\<in>set js. \<not> isScale q \<and> outLabel q \<noteq> Outv"
    "\<not> isScale p" "outLabel p = Outv" "includesOutv p"
    by blast
  from assms have "length assets \<noteq> 1" by simp
  with s have "assembleWithTransitions assets scs options =
           Inr (FilterComplex (map localPath assets)
                  (map (\<lambda>i. Scale i (normalizeOf options)) [0..<length assets] @ js @ [p])
                  (outputPath options))"
    by (simp add: assembleWithTransitions_def Let_def concatFallback_def)
  with s show ?thesis by blast
qed

lemma filter_empty_conv': "(\<forall>q\<in>set js. \<not> P q) \<Longrightarrow> filter P js = []"
  by (induction js) auto

text \<open>
  Claim C3, as amended. On the transition path with at least one resolved asset the
  command has exactly one scale/pad/fps filter per resolved asset (one on the
  single-asset path); on the no-transition concatenation path the command has exactly
  one such filter in total, applied to the concatenated stream. The claim as stated fails
  on the concatenation path: two assets, one filter.
\<close>

theorem normalize_steps_by_path:
  "(\<not> list_ex (\<lambda>s. transitionIn s \<noteq> cut \<or> transitionOut s \<noteq> cut) (scenes storyboard) \<longrightarrow>
      (\<exists>cmd. assembleStoryboard storyboard assets outPath = Inr cmd \<and> normalizeSteps cmd = 1)) \<and>
   (list_ex (\<lambda>s. transitionIn s \<noteq> cut \<or> transitionOut s \<noteq> cut) (scenes storyboard) \<and>
    assets \<noteq> [] \<longrightarrow>
      (\<exists>cmd. assembleStoryboard storyboard assets outPath = Inr cmd \<and>
             normalizeSteps cmd = length assets)) \<and>
   (assets \<noteq> [] \<longrightarrow>
      (\<exists>cmd. assembleWithTransitions assets scs options = Inr cmd \<and>
             normalizeSteps cmd = length assets))"
proof -
  have wt: "\<exists>cmd. assembleWithTransitions assets scs options = Inr cmd \<and>
             normalizeSteps cmd = length assets" if "assets \<noteq> []" for scs options
  proof (cases "length assets = 1")
    case True
    then show ?thesis by (simp add: assembleWithTransitions_def)
  next
    case False
    moreover from that have "length assets \<noteq> 0" by simp
    ultimately have "2 \<le> length assets" by arith
    from assembleWithTransitions_many [OF this, of scs options] obtain js p where s:
      "assembleWithTransitions assets scs options =
           Inr (FilterComplex (map localPath assets)
                  (map (\<lambda>i. Scale i (normalizeOf options)) [0..<length assets] @ js @ [p])
                  (outputPath options))"
      "\<forall>q\<in>set js. \<not> isScale q \<and> outLabel q \<noteq> Outv" "\<not> isScale p"
      by blast
    from s(2) have "filter isScale js = []" by (intro filter_empty_conv') simp
    with s(1,3) show ?thesis by (simp add: filter_isScale_scales)
  qed
  show ?thesis
  proof (intro conjI impI)
    assume "\<not> list_ex (\<lambda>s. transitionIn s \<noteq> cut \<or> transitionOut s \<noteq> cut) (scenes storyboard)"
    then show "\<exists>cmd. assembleStoryboard storyboard assets outPath = Inr cmd \<and> normalizeSteps cmd = 1"
      by (simp add: assembleStoryboard_def assembleSimple_def Let_def)
  next
    assume a: "list_ex (\<lambda>s. transitionIn s \<noteq> cut \<or> transitionOut s \<noteq> cut) (scenes storyboard) \<and>
      assets \<noteq> []"
    then have "assembleStoryboard storyboard assets outPath =
       assembleWithTransitions assets (scenes storyboard)
         \<lparr>outputPath = outPath,
          opt_width = Some (fst (outputResolution storyboard)),
          opt_height = Some (snd (outputResolution storyboard)),
          opt_fps = Some (outputFps storyboard)\<rparr>"
      by (simp add: assembleStoryboard_def Let_def)
    with wt a show "\<exists>cmd. assembleStoryboard storyboard assets outPath = Inr cmd \<and>
             normalizeSteps cmd = length assets"
      by simp
  next
    assume "assets \<noteq> []"
    then show "\<exists>cmd. assembleWithTransitions assets scs options = Inr cmd \<and>
             normalizeSteps cmd = length assets"
      by (rule wt)
  qed
qed

theorem normalize_steps_counterexample:
  "assembleStoryboard (storyboard_of scenes_all_cut) two_assets ''/out/demo.mp4'' =
     Inr (ConcatDemuxer
            (''file '' @ [CHR 0x27] @ ''/media/a.mp4'' @ [CHR 0x27] @ [CHR 0x0A] @
             ''file '' @ [CHR 0x27] @ ''/media/b.mp4'' @ [CHR 0x27])
            (ScalePadFps 1920 1080 30) ''/out/demo.mp4'') \<and>
   normalizeSteps (ConcatDemuxer
            (''file '' @ [CHR 0x27] @ ''/media/a.mp4'' @ [CHR 0x27] @ [CHR 0x0A] @
             ''file '' @ [CHR 0x27] @ ''/media/b.mp4'' @ [CHR 0x27])
            (ScalePadFps 1920 1080 30) ''/out/demo.mp4'') \<noteq> length two_assets"
  by (simp add: assembleStoryboard_def assembleSimple_def normalizeOf_def orNum_def Let_def plan_defs)

theorem normalize_steps_by_path_witness:
  "(\<exists>cmd. assembleStoryboard (storyboard_of scenes_all_cut) two_assets ''/out/demo.mp4'' = Inr cmd \<and>
          normalizeSteps cmd = 1) \<and>
   (\<exists>cmd. assembleStoryboard (storyboard_of scenes_fade_cut) three_assets ''/out/demo.mp4'' = Inr cmd \<and>
          normalizeSteps cmd = 3) \<and>
   (\<exists>cmd. assembleWithTransitions [resolved_of ''sc_1'' ''/media/a.mp4''] scenes_fade_cut
            example_options = Inr cmd \<and> normalizeSteps cmd = 1)"
proof -
  have a: "\<not> list_ex (\<lambda>s. transitionIn s \<noteq> cut \<or> transitionOut s \<noteq> cut)
             (scenes (storyboard_of scenes_all_cut))"
    by (simp add: plan_defs)
  have b: "list_ex (\<lambda>s. transitionIn s \<noteq> cut \<or> transitionOut s \<noteq> cut)
             (scenes (storyboard_of scenes_fade_cut)) \<and> three_assets \<noteq> []"
    by (simp add: plan_defs)
  have c: "[resolved_of ''sc_1'' ''/media/a.mp4''] \<noteq> []" "length three_assets = 3"
    by (simp_all add: three_assets_def)
  from normalize_steps_by_path
         [of "storyboard_of scenes_all_cut" two_assets "''/out/demo.mp4''"
             scenes_fade_cut example_options]
       normalize_steps_by_path
         [of "storyboard_of scenes_fade_cut" three_assets "''/out/demo.mp4''"
             scenes_fade_cut example_options]
       normalize_steps_by_path
         [of "storyboard_of scenes_all_cut" "[resolved_of ''sc_1'' ''/media/a.mp4'']"
             "''/out/demo.mp4''" scenes_fade_cut example_options]
       a b c
  show ?thesis by simp
qed

text \<open>
  Claim C5. For two or more resolved assets \<open>assembleWithTransitions\<close> returns a
  \<^verbatim>\<open>filter_complex\<close> whose last part writes \<^verbatim>\<open>[outv]\<close> and in which exactly one part
  writes \<^verbatim>\<open>[outv]\<close>; \<open>assembleStoryboard\<close> returns a command with one final output on
  either path; and whenever the chain after the scale filters does not end in a part whose
  text contains \<^verbatim>\<open>[outv]\<close>, the step after the loop replaces the chain by one
  concatenation of all normalized inputs, which again has exactly one final output.
\<close>

theorem plan_ends_in_one_output:
  assumes "2 \<le> length assets"
  shows "(\<exists>parts. assembleWithTransitions assets scs options =
            Inr (FilterComplex (map localPath assets) parts (outputPath options)) \<and>
            parts \<noteq> [] \<and> outLabel (last parts) = Outv \<and>
            length (filter (\<lambda>p. outLabel p = Outv) parts) = 1) \<and>
         (\<exists>cmd. assembleStoryboard storyboard assets outPath = Inr cmd \<and> finalOutputs cmd = 1) \<and>
         (\<not> includesOutv (last (map (\<lambda>i. Scale i nf) [0..<length assets] @ js)) \<longrightarrow>
            concatFallback (length assets) (map (\<lambda>i. Scale i nf) [0..<length assets] @ js) =
              map (\<lambda>i. Scale i nf) [0..<length assets] @
                [ConcatAll (map V [0..<length assets]) (length assets)] \<and>
            finalOutputs (FilterComplex (map localPath assets)
              (concatFallback (length assets) (map (\<lambda>i. Scale i nf) [0..<length assets] @ js))
              (outputPath options)) = 1)"
proof -
  have wt: "\<exists>parts. assembleWithTransitions assets scs options =
            Inr (FilterComplex (map localPath assets) parts (outputPath options)) \<and>
            parts \<noteq> [] \<and> outLabel (last parts) = Outv \<and>
            length (filter (\<lambda>p. outLabel p = Outv) parts) = 1" for scs options
  proof -
    from assembleWithTransitions_many [OF assms, of scs options] obtain js p where s:
      "assembleWithTransitions assets scs options =
           Inr (FilterComplex (map localPath assets)
                  (map (\<lambda>i. Scale i (normalizeOf options)) [0..<length assets] @ js @ [p])
                  (outputPath options))"
      "\<forall>q\<in>set js. \<not> isScale q \<and> outLabel q \<noteq> Outv" "outLabel p = Outv"
      by blast
    from s(2) have "filter (\<lambda>p. outLabel p = Outv) js = []" by (intro filter_empty_conv') simp
    with s(3) have "length (filter (\<lambda>p. outLabel p = Outv)
        (map (\<lambda>i. Scale i (normalizeOf options)) [0..<length assets] @ js @ [p])) = 1"
      by (simp add: filter_outv_scales)
    with s(1,3) show ?thesis by auto
  qed
  have sb: "\<exists>cmd. assembleStoryboard storyboard assets outPath = Inr cmd \<and> finalOutputs cmd = 1"
  proof (cases "list_ex (\<lambda>s. transitionIn s \<noteq> cut \<or> transitionOut s \<noteq> cut) (scenes storyboard)")
    case True
    let ?o = "\<lparr>outputPath = outPath,
          opt_width = Some (fst (outputResolution storyboard)),
          opt_height = Some (snd (outputResolution storyboard)),
          opt_fps = Some (outputFps storyboard)\<rparr>"
    from True have "assembleStoryboard storyboard assets outPath =
       assembleWithTransitions assets (scenes storyboard) ?o"
      by (simp add: assembleStoryboard_def Let_def)
    with wt [of "scenes storyboard" ?o] show ?thesis by auto
  next
    case False
    then show ?thesis by (simp add: assembleStoryboard_def assembleSimple_def Let_def)
  qed
  have fb: "concatFallback (length assets) (map (\<lambda>i. Scale i nf) [0..<length assets] @ js) =
              map (\<lambda>i. Scale i nf) [0..<length assets] @
                [ConcatAll (map V [0..<length assets]) (length assets)]"
    if "\<not> includesOutv (last (map (\<lambda>i. Scale i nf) [0..<length assets] @ js))"
    using that by (simp add: concatFallback_def)
  show ?thesis
  proof (intro conjI impI)
    show "\<exists>parts. assembleWithTransitions assets scs options =
            Inr (FilterComplex (map localPath assets) parts (outputPath options)) \<and>
            parts \<noteq> [] \<and> outLabel (last parts) = Outv \<and>
            length (filter (\<lambda>p. outLabel p = Outv) parts) = 1"
      by (rule wt)
  next
    show "\<exists>cmd. assembleStoryboard storyboard assets outPath = Inr cmd \<and> finalOutputs cmd = 1"
      by (rule sb)
  next
    assume "\<not> includesOutv (last (map (\<lambda>i. Scale i nf) [0..<length assets] @ js))"
    then show "concatFallback (length assets) (map (\<lambda>i. Scale i nf) [0..<length assets] @ js) =
              map (\<lambda>i. Scale i nf) [0..<length assets] @
                [ConcatAll (map V [0..<length assets]) (length assets)]"
      by (rule fb)
  next
    assume "\<not> includesOutv (last (map (\<lambda>i. Scale i nf) [0..<length assets] @ js))"
    from fb [OF this]
    show "finalOutputs (FilterComplex (map localPath assets)
              (concatFallback (length assets) (map (\<lambda>i. Scale i nf) [0..<length assets] @ js))
              (outputPath options)) = 1"
      by (simp add: filter_outv_scales)
  qed
qed

theorem plan_ends_in_one_output_witness:
  "assembleWithTransitions two_assets scenes_fade_cut example_options =
     Inr (FilterComplex [''/media/a.mp4'', ''/media/b.mp4'']
            [Scale 0 (ScalePadFps 1920 1080 30), Scale 1 (ScalePadFps 1920 1080 30),
             Xfade (V 0) 1 ''fade'' (1 / 2) (7 / 2) Outv]
            ''/out/demo.mp4'') \<and>
   (\<exists>cmd. assembleStoryboard (storyboard_of scenes_fade_cut) two_assets ''/out/demo.mp4'' = Inr cmd \<and>
      finalOutputs cmd = 1) \<and>
   \<not> includesOutv (last ([Scale 0 (ScalePadFps 1920 1080 30), Scale 1 (ScalePadFps 1920 1080 30)] @
      [Concat2 (V 0) 1 (ConcatLabel 1)])) \<and>
   concatFallback 2
     [Scale 0 (ScalePadFps 1920 1080 30), Scale 1 (ScalePadFps 1920 1080 30),
      Concat2 (V 0) 1 (ConcatLabel 1)] =
     [Scale 0 (ScalePadFps 1920 1080 30), Scale 1 (ScalePadFps 1920 1080 30),
      ConcatAll [V 0, V 1] 2]"
proof -
  have h: "2 \<le> length two_assets" by (simp add: two_assets_def)
  have l: "length two_assets = 2" by (simp add: two_assets_def)
  have e: "assembleWithTransitions two_assets scenes_fade_cut example_options =
     Inr (FilterComplex [''/media/a.mp4'', ''/media/b.mp4'']
            [Scale 0 (ScalePadFps 1920 1080 30), Scale 1 (ScalePadFps 1920 1080 30),
             Xfade (V 0) 1 ''fade'' (1 / 2) (7 / 2) Outv]
            ''/out/demo.mp4'')"
    by (simp add: assembleWithTransitions_def concatFallback_def normalizeOf_def orNum_def
          assembler_defs upt_small plan_defs)
  from plan_ends_in_one_output
         [OF h, of scenes_fade_cut example_options "storyboard_of scenes_fade_cut"
            "''/out/demo.mp4''" "ScalePadFps 1920 1080 30" "[Concat2 (V 0) 1 (ConcatLabel 1)]"]
       l
  have r: "(\<exists>cmd. assembleStoryboard (storyboard_of scenes_fade_cut) two_assets ''/out/demo.mp4'' = Inr cmd \<and>
      finalOutputs cmd = 1)"
    and f: "concatFallback 2
     [Scale 0 (ScalePadFps 1920 1080 30), Scale 1 (ScalePadFps 1920 1080 30),
      Concat2 (V 0) 1 (ConcatLabel 1)] =
     [Scale 0 (ScalePadFps 1920 1080 30), Scale 1 (ScalePadFps 1920 1080 30),
      ConcatAll [V 0, V 1] 2]"
    by (simp_all add: upt_small)
  from e r f show ?thesis by simp
qed

subsection \<open>Matching route and production job\<close>

lemma example_score_073:
  "scoreCandidate example_scene [1, 0] asset_073 = Some match_073"
  by (simp add: example_defs matcher_defs asset_073_def match_073_def)

lemma generateCalls_append: "generateCalls (xs @ ys) = generateCalls xs @ generateCalls ys"
  by (induction xs rule: generateCalls.induct) auto

lemma matchQueries_append: "matchQueries (xs @ ys) = matchQueries xs @ matchQueries ys"
  by (induction xs rule: matchQueries.induct) auto

lemma calls_updateJobStatus: "calls (updateJobStatus jid s p out w) = calls w"
  by (simp add: updateJobStatus_def)

lemma calls_failJob: "calls (failJob jid m w) = calls w"
  by (simp add: failJob_def)

lemma calls_updateStoryboardScenes: "calls (updateStoryboardScenes sbId scs w) = calls w"
  by (simp add: updateStoryboardScenes_def)

lemma sceneMatches_updateJobStatus: "sceneMatches (updateJobStatus jid s p out w) = sceneMatches w"
  by (simp add: updateJobStatus_def)

lemma resolveScene_reuse:
  assumes "alreadyMatched scene (world st) = Some (aid, row)"
  shows "calls (world (fst (resolveScene sv jid sbId totalScenes i scene st))) = calls (world st)"
    and "snd (resolveScene sv jid sbId totalScenes i scene st) = None"
    and "scenesOut (fst (resolveScene sv jid sbId totalScenes i scene st)) = scenesOut st @ [scene]"
  using assms by (simp_all add: resolveScene_def Let_def calls_updateJobStatus)

lemma resolveScene_generate:
  assumes "alreadyMatched scene (world st) = None"
  shows "generateCalls (calls (world (fst (resolveScene sv jid sbId totalScenes i scene st)))) =
           generateCalls (calls (world st)) @ [sceneId scene]"
    and "matchQueries (calls (world (fst (resolveScene sv jid sbId totalScenes i scene st)))) =
           matchQueries (calls (world st))"
  using assms
  by (auto simp: resolveScene_def Let_def calls_updateJobStatus generateCalls_append
        matchQueries_append split: sum.splits)

lemma alreadyMatched_not_existing:
  "assetSource scene \<noteq> Some existing \<Longrightarrow> alreadyMatched scene w = None"
  by (simp add: alreadyMatched_def split: option.splits)


lemma alreadyMatched_sceneMatches:
  "sceneMatches w = sceneMatches w' \<Longrightarrow> alreadyMatched scene w = alreadyMatched scene w'"
  unfolding alreadyMatched_def by (simp only:)

lemma resolveScene_reuse_sceneMatches:
  assumes "alreadyMatched scene (world st) = Some (aid, row)"
  shows "sceneMatches (world (fst (resolveScene sv jid sbId totalScenes i scene st))) =
         sceneMatches (world st)"
  using assms by (simp add: resolveScene_def Let_def sceneMatches_updateJobStatus)

lemma resolveLoop_reuse:
  assumes "\<forall>scene\<in>set scs. alreadyMatched scene (world st) \<noteq> None"
  shows "calls (world (fst (resolveLoop sv jid sbId totalScenes i scs st))) = calls (world st) \<and>
         snd (resolveLoop sv jid sbId totalScenes i scs st) = None"
  using assms
proof (induction scs arbitrary: st i)
  case Nil
  then show ?case by simp
next
  case (Cons scene rest)
  from Cons.prems obtain aid row where m: "alreadyMatched scene (world st) = Some (aid, row)"
    by auto
  obtain st' where r: "resolveScene sv jid sbId totalScenes i scene st = (st', None)"
    using resolveScene_reuse(2) [OF m, of sv jid sbId totalScenes i]
    by (cases "resolveScene sv jid sbId totalScenes i scene st") auto
  from resolveScene_reuse(1) [OF m, of sv jid sbId totalScenes i] r
  have c: "calls (world st') = calls (world st)" by simp
  from resolveScene_reuse_sceneMatches [OF m, of sv jid sbId totalScenes i] r
  have "sceneMatches (world st') = sceneMatches (world st)" by simp
  then have "\<forall>scene\<in>set rest. alreadyMatched scene (world st') \<noteq> None"
    using Cons.prems alreadyMatched_sceneMatches [of "world st'" "world st"] by simp
  from Cons.IH [OF this, of "Suc i"] r c show ?case by simp
qed

lemma existing_scenes_are_reused:
  assumes "find (\<lambda>sb. storyboardId sb = sbId) (storyboards w) = Some row"
    and "\<forall>scene\<in>set (scenes row). alreadyMatched scene w \<noteq> None"
  shows "generateCalls (calls (processProductionJob sv jid sbId w)) = generateCalls (calls w)"
proof -
  let ?w1 = "updateJobStatus jid matching 0.1 None w"
  let ?st0 = "\<lparr>world = ?w1, resolvedAssets = [], scenesOut = []\<rparr>"
  have f: "find (\<lambda>sb. storyboardId sb = sbId) (storyboards ?w1) = Some row"
    using assms(1) by (simp add: updateJobStatus_def)
  have "\<forall>scene\<in>set (scenes row). alreadyMatched scene (world ?st0) \<noteq> None"
    using assms(2) alreadyMatched_sceneMatches [of ?w1 w]
    by (simp add: sceneMatches_updateJobStatus)
  from resolveLoop_reuse [OF this, of sv jid sbId "length (scenes row)" 0]
  obtain st where l: "resolveLoop sv jid sbId (length (scenes row)) 0 (scenes row) ?st0 = (st, None)"
    and c: "calls (world st) = calls w"
    by (cases "resolveLoop sv jid sbId (length (scenes row)) 0 (scenes row) ?st0")
       (auto simp: calls_updateJobStatus)
  show ?thesis
    using f l c
    by (auto simp: processProductionJob_def Let_def calls_failJob calls_updateJobStatus
          calls_updateStoryboardScenes generateCalls_append
          split: sum.splits option.splits AssembleError.splits)
qed

lemma manual_scene_is_generated:
  assumes "assetSource scene = Some manual"
  shows "generateCalls (calls (world (fst (resolveScene sv jid sbId totalScenes i scene st)))) =
           generateCalls (calls (world st)) @ [sceneId scene]"
  by (rule resolveScene_generate(1), rule alreadyMatched_not_existing) (simp add: assms)

text \<open>
  Claim C1 says that production reuses every prior resolution with source \<open>existing\<close> or
  \<open>manual\<close> and generates nothing for such scenes. \<open>existing_scenes_are_reused\<close> above is the
  part that holds: scenes matched as \<open>existing\<close>, with their row in \<open>scene_matches\<close>, are
  reused without any generation. The evaluation below is the part that fails: after the
  manual override route has resolved the only scene of a storyboard (source \<open>manual\<close>,
  with its row in \<open>scene_matches\<close>), \<open>processProductionJob\<close> still calls the generation
  service for that scene, whatever the services answer.
\<close>

theorem manual_override_is_regenerated:
  "overrideRoute ''sb_1'' ''sc_1'' ''a80'' ''/media/a80.mp4'' world_fresh = Inr world_manual \<and>
   generateCalls (calls (processProductionJob sv ''job_1'' ''sb_1'' world_manual)) = [''sc_1'']"
proof -
  have o: "overrideRoute ''sb_1'' ''sc_1'' ''a80'' ''/media/a80.mp4'' world_fresh = Inr world_manual"
    by (simp add: overrideRoute_def world_fresh_def world_manual_def storyboard_of_def
          scene_of_def example_scene_def updateStoryboardScenes_def Let_def)
  let ?scene = "(scene_of ''sc_1'' 4 cut)\<lparr>matchedAssetId := Some ''a80'', matchScore := Some 1,
               assetSource := Some manual, needsReview := False\<rparr>"
  let ?w1 = "updateJobStatus ''job_1'' matching 0.1 None world_manual"
  let ?st0 = "\<lparr>world = ?w1, resolvedAssets = [], scenesOut = []\<rparr>"
  have f: "find (\<lambda>sb. storyboardId sb = ''sb_1'') (storyboards ?w1) =
             Some (storyboard_of [?scene])"
    by (simp add: updateJobStatus_def world_manual_def storyboard_of_def)
  have g: "generateCalls (calls (world (fst (resolveScene sv ''job_1'' ''sb_1'' 1 0 ?scene ?st0)))) =
             [''sc_1'']"
    using manual_scene_is_generated [of ?scene sv "''job_1''" "''sb_1''" 1 0 ?st0]
    by (simp add: calls_updateJobStatus world_manual_def scene_of_def example_scene_def)
  have "generateCalls (calls (processProductionJob sv ''job_1'' ''sb_1'' world_manual)) = [''sc_1'']"
    using f g
    by (auto simp: processProductionJob_def Let_def storyboard_of_def calls_failJob
          calls_updateJobStatus calls_updateStoryboardScenes generateCalls_append
          split: prod.splits sum.splits option.splits AssembleError.splits)
  with o show ?thesis by simp
qed



















end
